theory Spec2Isabelle
  imports Main "HOL-Library.Word"
begin

section \<open>Go values: errors, panics, durations\<close>

text \<open>
  A Go \<^verbatim>\<open>error\<close> is either a structured provider error (it implements
  \<^verbatim>\<open>awserr.Error\<close> and carries a code and a message), some other error value, an
  error built by \<^verbatim>\<open>fmt.Errorf\<close> from a format string and its arguments, or one of
  the two errors of the poller (a timeout with the last status seen, an unexpected
  status). Only the first implements \<^verbatim>\<open>awserr.Error\<close>. The nil error is
  \<open>None\<close> of \<open>go_error option\<close>.
\<close>

datatype go_error =
    AwsError string string
  | PlainError string
  | Errorf string "fmt_arg list"
  | TimeoutError string
  | UnexpectedStateError string
and fmt_arg =
    ArgString string
  | ArgError go_error

text \<open>
  \<^verbatim>\<open>ec2err, ok := err.(awserr.Error)\<close> followed by \<^verbatim>\<open>ec2err.Code()\<close>:
  \<open>None\<close> when the assertion's \<^verbatim>\<open>ok\<close> is false.
\<close>

fun awsCode :: "go_error \<Rightarrow> string option" where
  "awsCode (AwsError code msg) = Some code"
| "awsCode (PlainError msg) = None"
| "awsCode (Errorf f args) = None"
| "awsCode (TimeoutError status) = None"
| "awsCode (UnexpectedStateError status) = None"

text \<open>
  A run-time panic ends the call without a return value: an index past the end of a
  slice, a dereference of a nil pointer, a type assertion without \<^verbatim>\<open>ok\<close> on a
  value of another type.
\<close>

datatype go_panic = IndexOutOfRange | NilPointerDereference | InterfaceConversion

datatype 'a go = Panics go_panic | Returns 'a

text \<open>\<^verbatim>\<open>time.Duration\<close> is a signed 64-bit count of nanoseconds.\<close>

type_synonym Duration = "64 word"

definition Second :: Duration where
  "Second = 1000000000"

definition Minute :: Duration where
  "Minute = 60 * Second"

section \<open>The provider's records\<close>

text \<open>
  The SDK holds every scalar member behind a pointer, nil when the member is absent
  from the response: such a member is an \<open>option\<close>. A slice is a list; the
  association set is compared with nil by the code, so it is an optional list (nil is
  \<open>None\<close>, an allocated empty slice is \<open>Some []\<close>). The elements of a slice are
  allocated by the SDK and are records.
\<close>

record SubnetCidrBlockState =
  cbs_State :: "string option"

record SubnetIpv6CidrBlockAssociation =
  as_AssociationId :: "string option"
  as_Ipv6CidrBlock :: "string option"
  as_Ipv6CidrBlockState :: "SubnetCidrBlockState option"

record Subnet =
  sn_SubnetId :: "string option"
  sn_VpcId :: "string option"
  sn_AvailabilityZone :: "string option"
  sn_AvailabilityZoneId :: "string option"
  sn_CidrBlock :: "string option"
  sn_MapPublicIpOnLaunch :: "bool option"
  sn_AssignIpv6AddressOnCreation :: "bool option"
  sn_Ipv6CidrBlockAssociationSet :: "SubnetIpv6CidrBlockAssociation list option"
  sn_SubnetArn :: "string option"
  sn_Tags :: "(string \<times> string) list"
  sn_OwnerId :: "string option"
  sn_State :: "string option"

record DescribeSubnetsOutput =
  dso_Subnets :: "Subnet list"

record PlacementGroup =
  pg_GroupName :: "string option"
  pg_Strategy :: "string option"
  pg_State :: "string option"

record DescribePlacementGroupsOutput =
  dpo_PlacementGroups :: "PlacementGroup list"

record CreateSubnetInput =
  csi_AvailabilityZone :: "string option"
  csi_AvailabilityZoneId :: "string option"
  csi_CidrBlock :: "string option"
  csi_VpcId :: "string option"
  csi_Ipv6CidrBlock :: "string option"

record CreateSubnetOutput =
  cso_Subnet :: "Subnet option"

record ModifySubnetAttributeInput =
  msa_SubnetId :: "string option"
  msa_MapPublicIpOnLaunch :: "bool option"
  msa_AssignIpv6AddressOnCreation :: "bool option"

record AssociateSubnetCidrBlockInput =
  asi_SubnetId :: "string option"
  asi_Ipv6CidrBlock :: "string option"

record AssociateSubnetCidrBlockOutput =
  aso_Ipv6CidrBlockAssociation :: "SubnetIpv6CidrBlockAssociation option"

section \<open>The provider client\<close>

text \<open>
  The client \<^verbatim>\<open>conn\<close> is a collaborator: each of its methods is a parameter, a
  function of the request and of the provider's state \<open>'w\<close> that returns the response,
  the error and the provider's next state. A describe or create call returns a pointer
  to its output (nil is \<open>None\<close>) beside the error.
\<close>

record 'w EC2 =
  CreateSubnet :: "CreateSubnetInput \<Rightarrow> 'w \<Rightarrow> (CreateSubnetOutput option \<times> go_error option) \<times> 'w"
  DescribeSubnets :: "string list \<Rightarrow> 'w \<Rightarrow> (DescribeSubnetsOutput option \<times> go_error option) \<times> 'w"
  ModifySubnetAttribute :: "ModifySubnetAttributeInput \<Rightarrow> 'w \<Rightarrow> go_error option \<times> 'w"
  DisassociateSubnetCidrBlock :: "string \<Rightarrow> 'w \<Rightarrow> go_error option \<times> 'w"
  AssociateSubnetCidrBlock ::
    "AssociateSubnetCidrBlockInput \<Rightarrow> 'w \<Rightarrow> (AssociateSubnetCidrBlockOutput option \<times> go_error option) \<times> 'w"
  DeleteSubnet :: "string \<Rightarrow> 'w \<Rightarrow> go_error option \<times> 'w"
  CreatePlacementGroup :: "string \<Rightarrow> string \<Rightarrow> 'w \<Rightarrow> go_error option \<times> 'w"
  DescribePlacementGroups ::
    "string list \<Rightarrow> 'w \<Rightarrow> (DescribePlacementGroupsOutput option \<times> go_error option) \<times> 'w"
  DeletePlacementGroup :: "string \<Rightarrow> 'w \<Rightarrow> go_error option \<times> 'w"

section \<open>Status probes\<close>

text \<open>
  A probe (\<^verbatim>\<open>resource.StateRefreshFunc\<close>) returns a payload of type
  \<^verbatim>\<open>interface{}\<close>, a status string and an error. The payloads these probes build
  are the untyped nil, the integer 42, a subnet, an association, and the pointer to a
  describe-placement-groups output (a typed pointer, nil or not).
\<close>

datatype payload =
    NilPayload
  | IntPayload int
  | SubnetPayload Subnet
  | AssociationPayload SubnetIpv6CidrBlockAssociation
  | PlacementGroupsPayload "DescribePlacementGroupsOutput option"

type_synonym probe_result = "payload \<times> string \<times> go_error option"

type_synonym 'w StateRefreshFunc = "'w \<Rightarrow> probe_result go \<times> 'w"

text \<open>
  The error handling that opens both subnet describe probes (lines 405-414 and 436-445):
  a not-found error clears the response and goes on, any other error is returned.
\<close>

definition describeSubnetsResult ::
  "DescribeSubnetsOutput option \<Rightarrow> go_error option \<Rightarrow> go_error + DescribeSubnetsOutput option" where
  "describeSubnetsResult resp err =
     (case err of
        None \<Rightarrow> Inr resp
      | Some e \<Rightarrow>
          if awsCode e = Some ''InvalidSubnetID.NotFound'' then Inr None else Inl e)"

text \<open>\<^verbatim>\<open>SubnetStateRefreshFunc\<close>, lines 399-427.\<close>

definition SubnetStateRefreshFunc :: "'w EC2 \<Rightarrow> string \<Rightarrow> 'w StateRefreshFunc" where
  "SubnetStateRefreshFunc conn subnet_id w =
     (case DescribeSubnets conn [subnet_id] w of
        ((resp0, err), w') \<Rightarrow>
          (case describeSubnetsResult resp0 err of
             Inl e \<Rightarrow> (Returns (NilPayload, '''', Some e), w')
           | Inr None \<Rightarrow> (Returns (NilPayload, '''', None), w')
           | Inr (Some resp) \<Rightarrow>
               (case dso_Subnets resp of
                  [] \<Rightarrow> (Panics IndexOutOfRange, w')
                | subnet # _ \<Rightarrow>
                    (case sn_State subnet of
                       None \<Rightarrow> (Panics NilPointerDereference, w')
                     | Some s \<Rightarrow> (Returns (SubnetPayload subnet, s, None), w')))))"

text \<open>
  The scan of \<^verbatim>\<open>SubnetIpv6CidrStateRefreshFunc\<close>, lines 459-467: the first
  association whose identifier is the tracked one ends the loop with its state; the
  identifier of every association met before is dereferenced, and so are the state
  block and the state of the match.
\<close>

fun scanAssociations ::
  "string \<Rightarrow> SubnetIpv6CidrBlockAssociation list \<Rightarrow> probe_result go" where
  "scanAssociations associationId [] = Returns (NilPayload, '''', None)"
| "scanAssociations associationId (association # rest) =
     (case as_AssociationId association of
        None \<Rightarrow> Panics NilPointerDereference
      | Some a \<Rightarrow>
          if a = associationId then
            (case as_Ipv6CidrBlockState association of
               None \<Rightarrow> Panics NilPointerDereference
             | Some st \<Rightarrow>
                 (case cbs_State st of
                    None \<Rightarrow> Panics NilPointerDereference
                  | Some s \<Rightarrow> Returns (AssociationPayload association, s, None)))
          else scanAssociations associationId rest)"

text \<open>\<^verbatim>\<open>SubnetIpv6CidrStateRefreshFunc\<close>, lines 429-469.\<close>

definition SubnetIpv6CidrStateRefreshFunc ::
  "'w EC2 \<Rightarrow> string \<Rightarrow> string \<Rightarrow> 'w StateRefreshFunc" where
  "SubnetIpv6CidrStateRefreshFunc conn subnet_id associationId w =
     (case DescribeSubnets conn [subnet_id] w of
        ((resp0, err), w') \<Rightarrow>
          (case describeSubnetsResult resp0 err of
             Inl e \<Rightarrow> (Returns (NilPayload, '''', Some e), w')
           | Inr None \<Rightarrow> (Returns (NilPayload, '''', None), w')
           | Inr (Some resp) \<Rightarrow>
               (case dso_Subnets resp of
                  [] \<Rightarrow> (Panics IndexOutOfRange, w')
                | subnet # _ \<Rightarrow>
                    (case sn_Ipv6CidrBlockAssociationSet subnet of
                       None \<Rightarrow> (Returns (NilPayload, '''', None), w')
                     | Some associations \<Rightarrow>
                         (scanAssociations associationId associations, w')))))"

text \<open>
  The probe of the subnet delete wait, lines 361-386 of
  \<^verbatim>\<open>resourceAwsSubnetDelete\<close>: it issues the delete call itself.
\<close>

definition resourceAwsSubnetDelete_Refresh :: "'w EC2 \<Rightarrow> string \<Rightarrow> 'w StateRefreshFunc" where
  "resourceAwsSubnetDelete_Refresh conn req w =
     (case DeleteSubnet conn req w of
        (None, w') \<Rightarrow> (Returns (IntPayload 42, ''destroyed'', None), w')
      | (Some err, w') \<Rightarrow>
          (case awsCode err of
             Some code \<Rightarrow>
               if code = ''DependencyViolation'' then
                 (Returns (IntPayload 42, ''pending'', None), w')
               else if code = ''InvalidSubnetID.NotFound'' then
                 (Returns (IntPayload 42, ''destroyed'', None), w')
               else (Returns (IntPayload 42, ''failure'', Some err), w')
           | None \<Rightarrow> (Returns (IntPayload 42, ''failure'', Some err), w')))"

text \<open>
  The probe of the placement-group create wait, lines 60-78 of
  \<^verbatim>\<open>resourceAwsPlacementGroupCreate\<close>.
\<close>

definition resourceAwsPlacementGroupCreate_Refresh ::
  "'w EC2 \<Rightarrow> string \<Rightarrow> 'w StateRefreshFunc" where
  "resourceAwsPlacementGroupCreate_Refresh conn name w =
     (case DescribePlacementGroups conn [name] w of
        ((outp, Some err), w') \<Rightarrow> (Returns (PlacementGroupsPayload outp, '''', Some err), w')
      | ((None, None), w') \<Rightarrow> (Panics NilPointerDereference, w')
      | ((Some outp, None), w') \<Rightarrow>
          (case dpo_PlacementGroups outp of
             [] \<Rightarrow>
               (Returns (PlacementGroupsPayload (Some outp), '''',
                  Some (Errorf ''Placement group not found (%q)'' [ArgString name])), w')
           | pg # _ \<Rightarrow>
               (case pg_State pg of
                  None \<Rightarrow> (Panics NilPointerDereference, w')
                | Some s \<Rightarrow> (Returns (PlacementGroupsPayload (Some outp), s, None), w'))))"

text \<open>
  The probe of the placement-group delete wait, lines 131-155 of
  \<^verbatim>\<open>resourceAwsPlacementGroupDelete\<close>. The assertion
  \<^verbatim>\<open>err.(awserr.Error)\<close> has no \<^verbatim>\<open>ok\<close>: it panics on an error of another type.
\<close>

definition resourceAwsPlacementGroupDelete_Refresh ::
  "'w EC2 \<Rightarrow> string \<Rightarrow> 'w StateRefreshFunc" where
  "resourceAwsPlacementGroupDelete_Refresh conn group_id w =
     (case DescribePlacementGroups conn [group_id] w of
        ((outp, Some err), w') \<Rightarrow>
          (case awsCode err of
             None \<Rightarrow> (Panics InterfaceConversion, w')
           | Some code \<Rightarrow>
               if code = ''InvalidPlacementGroup.Unknown'' then
                 (Returns (PlacementGroupsPayload outp, ''deleted'', None), w')
               else (Returns (PlacementGroupsPayload outp, '''', Some err), w'))
      | ((None, None), w') \<Rightarrow> (Panics NilPointerDereference, w')
      | ((Some outp, None), w') \<Rightarrow>
          (case dpo_PlacementGroups outp of
             [] \<Rightarrow> (Returns (PlacementGroupsPayload (Some outp), ''deleted'', None), w')
           | pg # _ \<Rightarrow>
               (case pg_State pg of
                  None \<Rightarrow> (Panics NilPointerDereference, w')
                | Some s \<Rightarrow> (Returns (PlacementGroupsPayload (Some outp), s, None), w'))))"

section \<open>Resource data, timeouts and the other collaborators\<close>

text \<open>
  \<^verbatim>\<open>schema.ResourceData\<close> belongs to the SDK. It is represented by what its
  accessors return: the identifier, for each string and boolean field the value of the
  prior state, the planned value and the value written with \<^verbatim>\<open>Set\<close> during the
  call (\<^verbatim>\<open>Get\<close> reads the written value when there is one and the planned value
  otherwise; \<^verbatim>\<open>HasChange\<close> and \<^verbatim>\<open>GetChange\<close> compare the prior state with
  the plan), the new-resource mark, the partial-state mode with its keys, and the
  timeouts. The schema fixes the type of each field, so strings and booleans are kept
  apart.
\<close>

record ResourceTimeout =
  rt_Create :: "Duration option"
  rt_Delete :: "Duration option"

datatype timeout_key = TimeoutCreate | TimeoutDelete

record ResourceData =
  rd_Id :: string
  rd_stateString :: "string \<Rightarrow> string"
  rd_planString :: "string \<Rightarrow> string"
  rd_setString :: "string \<Rightarrow> string option"
  rd_stateBool :: "string \<Rightarrow> bool"
  rd_planBool :: "string \<Rightarrow> bool"
  rd_setBool :: "string \<Rightarrow> bool option"
  rd_tags :: "(string \<times> string) list"
  rd_IsNewResource :: bool
  rd_partial :: bool
  rd_partialKeys :: "string list"
  rd_timeouts :: ResourceTimeout

definition Get_string :: "ResourceData \<Rightarrow> string \<Rightarrow> string" where
  "Get_string d k = (case rd_setString d k of Some v \<Rightarrow> v | None \<Rightarrow> rd_planString d k)"

definition Get_bool :: "ResourceData \<Rightarrow> string \<Rightarrow> bool" where
  "Get_bool d k = (case rd_setBool d k of Some v \<Rightarrow> v | None \<Rightarrow> rd_planBool d k)"

text \<open>\<^verbatim>\<open>GetOk\<close>: the value, and whether it is set to something other than the zero value.\<close>

definition GetOk_string :: "ResourceData \<Rightarrow> string \<Rightarrow> string \<times> bool" where
  "GetOk_string d k = (Get_string d k, Get_string d k \<noteq> [])"

definition GetChange_string :: "ResourceData \<Rightarrow> string \<Rightarrow> string \<times> string" where
  "GetChange_string d k = (rd_stateString d k, rd_planString d k)"

definition HasChange_string :: "ResourceData \<Rightarrow> string \<Rightarrow> bool" where
  "HasChange_string d k = (rd_stateString d k \<noteq> rd_planString d k)"

definition HasChange_bool :: "ResourceData \<Rightarrow> string \<Rightarrow> bool" where
  "HasChange_bool d k = (rd_stateBool d k \<noteq> rd_planBool d k)"

text \<open>\<^verbatim>\<open>Set\<close> takes the SDK's pointers: a nil pointer writes the zero value.\<close>

definition Set_string :: "ResourceData \<Rightarrow> string \<Rightarrow> string option \<Rightarrow> ResourceData" where
  "Set_string d k v =
     d\<lparr>rd_setString := (rd_setString d)(k := Some (case v of None \<Rightarrow> [] | Some s \<Rightarrow> s))\<rparr>"

definition Set_bool :: "ResourceData \<Rightarrow> string \<Rightarrow> bool option \<Rightarrow> ResourceData" where
  "Set_bool d k v =
     d\<lparr>rd_setBool := (rd_setBool d)(k := Some (case v of None \<Rightarrow> False | Some b \<Rightarrow> b))\<rparr>"

definition SetPartial :: "ResourceData \<Rightarrow> string \<Rightarrow> ResourceData" where
  "SetPartial d k = d\<lparr>rd_partialKeys := rd_partialKeys d @ [k]\<rparr>"

text \<open>
  Modelled from the spec: the SDK's timeout plumbing is not under src/. The timeout of
  an operation is configurable; the timeouts block of the resource (lines 25-28 of
  \<^verbatim>\<open>resourceAwsSubnet\<close>) gives the default of an operation the configuration leaves
  out, and the SDK falls back to 20 minutes where neither sets it.
\<close>

definition resourceAwsSubnet_Timeouts :: ResourceTimeout where
  "resourceAwsSubnet_Timeouts =
     \<lparr>rt_Create = Some (10 * Minute), rt_Delete = Some (32 * Minute)\<rparr>"

definition rt_lookup :: "ResourceTimeout \<Rightarrow> timeout_key \<Rightarrow> Duration option" where
  "rt_lookup rt key = (case key of TimeoutCreate \<Rightarrow> rt_Create rt | TimeoutDelete \<Rightarrow> rt_Delete rt)"

definition ConfigDecode :: "ResourceTimeout \<Rightarrow> ResourceTimeout \<Rightarrow> ResourceTimeout" where
  "ConfigDecode defaults config =
     \<lparr>rt_Create = (case rt_Create config of Some t \<Rightarrow> Some t | None \<Rightarrow> rt_Create defaults),
      rt_Delete = (case rt_Delete config of Some t \<Rightarrow> Some t | None \<Rightarrow> rt_Delete defaults)\<rparr>"

definition ResourceData_Timeout :: "ResourceData \<Rightarrow> timeout_key \<Rightarrow> Duration" where
  "ResourceData_Timeout d key =
     (case rt_lookup (rd_timeouts d) key of Some t \<Rightarrow> t | None \<Rightarrow> 20 * Minute)"

text \<open>
  \<^verbatim>\<open>resource.StateChangeConf\<close>, with the members the controllers set.
\<close>

record 'w StateChangeConf =
  scc_Pending :: "string list"
  scc_Target :: "string list"
  scc_Refresh :: "'w StateRefreshFunc"
  scc_Timeout :: Duration
  scc_MinTimeout :: Duration

text \<open>
  The remaining collaborators, none of them under src/, are parameters:
  \<^verbatim>\<open>setTags\<close>, \<^verbatim>\<open>deleteLingeringLambdaENIs\<close> and \<^verbatim>\<open>tagsToMap\<close> of this
  package, and the SDK's \<^verbatim>\<open>WaitForState\<close>, which runs the probe of its configuration
  and returns a payload and an error (or never returns, when the probe panics).
\<close>

record 'w collaborators =
  setTags :: "ResourceData \<Rightarrow> 'w \<Rightarrow> go_error option \<times> 'w"
  deleteLingeringLambdaENIs :: "ResourceData \<Rightarrow> string \<Rightarrow> 'w \<Rightarrow> go_error option \<times> 'w"
  tagsToMap :: "(string \<times> string) list \<Rightarrow> (string \<times> string) list"
  WaitForState :: "'w StateChangeConf \<Rightarrow> 'w \<Rightarrow> (payload \<times> go_error option) go \<times> 'w"

section \<open>The trace of a controller\<close>

text \<open>
  A controller's effects are the calls it issues, in order. Each call is recorded with
  its request and its outcome; a wait is recorded with its whole configuration. The
  calls a probe issues happen inside \<^verbatim>\<open>WaitForState\<close> and belong to the wait's
  entry. A controller takes the resource data and the provider's state and gives its
  result, the trace of its calls, the resource data as it leaves them and the provider's
  next state.
\<close>

datatype 'w event =
    CallSetTags "go_error option"
  | CallModifySubnetAttribute ModifySubnetAttributeInput "go_error option"
  | CallDisassociateSubnetCidrBlock string "go_error option"
  | CallAssociateSubnetCidrBlock AssociateSubnetCidrBlockInput "go_error option"
  | CallWaitForState "'w StateChangeConf" "go_error option go"
  | CallCreateSubnet CreateSubnetInput "go_error option"
  | CallDescribeSubnets "string list" "go_error option"
  | CallDeleteLingeringLambdaENIs "go_error option"
  | CallCreatePlacementGroup string string "go_error option"
  | CallDescribePlacementGroups "string list" "go_error option"
  | CallDeletePlacementGroup string "go_error option"

type_synonym ('r, 'w) run = "'r \<times> 'w event list \<times> ResourceData \<times> 'w"

text \<open>What \<^verbatim>\<open>WaitForState\<close> hands back to a controller: the error, the payload dropped.\<close>

fun waitOutcome :: "(payload \<times> go_error option) go \<Rightarrow> go_error option go" where
  "waitOutcome (Panics p) = Panics p"
| "waitOutcome (Returns (res, err)) = Returns err"

text \<open>
  A block of statements either falls through to the statement after it or ends the
  function, with the returned error or a panic. Two blocks in sequence: the second runs
  when the first falls through, and the traces follow each other.
\<close>

datatype flow = FallThrough | Done "go_error option go"

definition andThen ::
  "(ResourceData \<Rightarrow> 'w \<Rightarrow> (flow, 'w) run) \<Rightarrow> (ResourceData \<Rightarrow> 'w \<Rightarrow> (flow, 'w) run) \<Rightarrow>
   ResourceData \<Rightarrow> 'w \<Rightarrow> (flow, 'w) run" where
  "andThen f g d w =
     (case f d w of
        (Done r, es, d', w') \<Rightarrow> (Done r, es, d', w')
      | (FallThrough, es, d', w') \<Rightarrow>
          (case g d' w' of (r, es', d'', w'') \<Rightarrow> (r, es @ es', d'', w'')))"

text \<open>
  The calls of the IPv6 CIDR reassociation: the disassociate call, the associate call
  and the waits (the update controller waits on nothing else).
\<close>

fun isCidrCall :: "'w event \<Rightarrow> bool" where
  "isCidrCall (CallDisassociateSubnetCidrBlock a err) = True"
| "isCidrCall (CallAssociateSubnetCidrBlock inp err) = True"
| "isCidrCall (CallWaitForState conf out) = True"
| "isCidrCall (CallSetTags err) = False"
| "isCidrCall (CallModifySubnetAttribute inp err) = False"
| "isCidrCall (CallCreateSubnet inp err) = False"
| "isCidrCall (CallDescribeSubnets ids err) = False"
| "isCidrCall (CallDeleteLingeringLambdaENIs err) = False"
| "isCidrCall (CallCreatePlacementGroup name strategy err) = False"
| "isCidrCall (CallDescribePlacementGroups names err) = False"
| "isCidrCall (CallDeletePlacementGroup name err) = False"

text \<open>The parts of a run.\<close>

definition result_of :: "('r, 'w) run \<Rightarrow> 'r" where
  "result_of r = fst r"

definition trace_of :: "('r, 'w) run \<Rightarrow> 'w event list" where
  "trace_of r = fst (snd r)"

section \<open>Subnet controllers\<close>

text \<open>
  The loop of \<^verbatim>\<open>resourceAwsSubnetRead\<close>, lines 186-192: the first association in
  state \<^verbatim>\<open>associated\<close> ends it; the state of each association met is dereferenced.
\<close>

fun firstAssociated ::
  "SubnetIpv6CidrBlockAssociation list \<Rightarrow> SubnetIpv6CidrBlockAssociation option go" where
  "firstAssociated [] = Returns None"
| "firstAssociated (a # rest) =
     (case as_Ipv6CidrBlockState a of
        None \<Rightarrow> Panics NilPointerDereference
      | Some st \<Rightarrow>
          (case cbs_State st of
             None \<Rightarrow> Panics NilPointerDereference
           | Some s \<Rightarrow> if s = ''associated'' then Returns (Some a) else firstAssociated rest))"

text \<open>Lines 175-196 of \<^verbatim>\<open>resourceAwsSubnetRead\<close>: the subnet copied into the resource data.\<close>

definition readSubnetInto ::
  "'w collaborators \<Rightarrow> Subnet \<Rightarrow> ResourceData \<Rightarrow> go_error option go \<times> ResourceData" where
  "readSubnetInto lib subnet d =
     (let d1 = Set_string d ''vpc_id'' (sn_VpcId subnet);
          d2 = Set_string d1 ''availability_zone'' (sn_AvailabilityZone subnet);
          d3 = Set_string d2 ''availability_zone_id'' (sn_AvailabilityZoneId subnet);
          d4 = Set_string d3 ''cidr_block'' (sn_CidrBlock subnet);
          d5 = Set_bool d4 ''map_public_ip_on_launch'' (sn_MapPublicIpOnLaunch subnet);
          d6 = Set_bool d5 ''assign_ipv6_address_on_creation''
                 (sn_AssignIpv6AddressOnCreation subnet);
          d7 = Set_string d6 ''ipv6_cidr_block_association_id'' (Some '''');
          d8 = Set_string d7 ''ipv6_cidr_block'' (Some '''')
      in case firstAssociated
                (case sn_Ipv6CidrBlockAssociationSet subnet of None \<Rightarrow> [] | Some as \<Rightarrow> as) of
           Panics p \<Rightarrow> (Panics p, d8)
         | Returns found \<Rightarrow>
             (let d9 = (case found of
                          None \<Rightarrow> d8
                        | Some a \<Rightarrow>
                            Set_string
                              (Set_string d8 ''ipv6_cidr_block_association_id''
                                 (as_AssociationId a))
                              ''ipv6_cidr_block'' (as_Ipv6CidrBlock a));
                  d10 = Set_string d9 ''arn'' (sn_SubnetArn subnet);
                  d11 = d10\<lparr>rd_tags := tagsToMap lib (sn_Tags subnet)\<rparr>;
                  d12 = Set_string d11 ''owner_id'' (sn_OwnerId subnet)
              in (Returns None, d12)))"

text \<open>\<^verbatim>\<open>resourceAwsSubnetRead\<close>, lines 150-200.\<close>

definition resourceAwsSubnetRead ::
  "'w collaborators \<Rightarrow> 'w EC2 \<Rightarrow> ResourceData \<Rightarrow> 'w \<Rightarrow> (go_error option go, 'w) run" where
  "resourceAwsSubnetRead lib conn d w =
     (case DescribeSubnets conn [rd_Id d] w of
        ((resp, Some e), w') \<Rightarrow>
          if awsCode e = Some ''InvalidSubnetID.NotFound''
          then (Returns None, [CallDescribeSubnets [rd_Id d] (Some e)], d\<lparr>rd_Id := ''''\<rparr>, w')
          else (Returns (Some e), [CallDescribeSubnets [rd_Id d] (Some e)], d, w')
      | ((None, None), w') \<Rightarrow> (Returns None, [CallDescribeSubnets [rd_Id d] None], d, w')
      | ((Some r, None), w') \<Rightarrow>
          (case dso_Subnets r of
             [] \<Rightarrow> (Panics IndexOutOfRange, [CallDescribeSubnets [rd_Id d] None], d, w')
           | subnet # _ \<Rightarrow>
               (case readSubnetInto lib subnet d of
                  (res, d') \<Rightarrow> (res, [CallDescribeSubnets [rd_Id d] None], d', w'))))"

text \<open>
  \<^verbatim>\<open>resourceAwsSubnetUpdate\<close>, lines 202-333, block by block. Lines 208-213: the
  tags.
\<close>

definition update_tags ::
  "'w collaborators \<Rightarrow> ResourceData \<Rightarrow> 'w \<Rightarrow> (flow, 'w) run" where
  "update_tags lib d w =
     (case setTags lib d w of
        (Some err, w') \<Rightarrow> (Done (Returns (Some err)), [CallSetTags (Some err)], d, w')
      | (None, w') \<Rightarrow> (FallThrough, [CallSetTags None], SetPartial d ''tags'', w'))"

text \<open>Lines 215-233: \<^verbatim>\<open>map_public_ip_on_launch\<close>.\<close>

definition update_mapPublicIpOnLaunch ::
  "'w EC2 \<Rightarrow> ResourceData \<Rightarrow> 'w \<Rightarrow> (flow, 'w) run" where
  "update_mapPublicIpOnLaunch conn d w =
     (if HasChange_bool d ''map_public_ip_on_launch'' then
        (let modifyOpts =
               \<lparr>msa_SubnetId = Some (rd_Id d),
                msa_MapPublicIpOnLaunch = Some (Get_bool d ''map_public_ip_on_launch''),
                msa_AssignIpv6AddressOnCreation = None\<rparr>
         in case ModifySubnetAttribute conn modifyOpts w of
              (Some err, w') \<Rightarrow>
                (Done (Returns (Some err)),
                 [CallModifySubnetAttribute modifyOpts (Some err)], d, w')
            | (None, w') \<Rightarrow>
                (FallThrough, [CallModifySubnetAttribute modifyOpts None],
                 SetPartial d ''map_public_ip_on_launch'', w'))
      else (FallThrough, [], d, w))"

text \<open>
  Lines 244-273: the old association, when the resource data has its identifier, is
  disassociated and the controller waits for it to be gone.
\<close>

definition disassociateConf :: "'w EC2 \<Rightarrow> ResourceData \<Rightarrow> 'w StateChangeConf" where
  "disassociateConf conn d =
     \<lparr>scc_Pending = [''disassociating'', ''associated''],
      scc_Target = [''disassociated''],
      scc_Refresh =
        SubnetIpv6CidrStateRefreshFunc conn (rd_Id d)
          (Get_string d ''ipv6_cidr_block_association_id''),
      scc_Timeout = 3 * Minute,
      scc_MinTimeout = 0\<rparr>"

definition update_disassociate ::
  "'w collaborators \<Rightarrow> 'w EC2 \<Rightarrow> ResourceData \<Rightarrow> 'w \<Rightarrow> (flow, 'w) run" where
  "update_disassociate lib conn d w =
     (case GetOk_string d ''ipv6_cidr_block_association_id'' of
        (v, False) \<Rightarrow> (FallThrough, [], d, w)
      | (v, True) \<Rightarrow>
          (case DisassociateSubnetCidrBlock conn v w of
             (Some err, w1) \<Rightarrow>
               (Done (Returns (Some err)), [CallDisassociateSubnetCidrBlock v (Some err)], d, w1)
           | (None, w1) \<Rightarrow>
               (let stateConf = disassociateConf conn d
                in case WaitForState lib stateConf w1 of
                     (r, w2) \<Rightarrow>
                       (case waitOutcome r of
                          Panics p \<Rightarrow>
                            (Done (Panics p),
                             [CallDisassociateSubnetCidrBlock v None,
                              CallWaitForState stateConf (Panics p)], d, w2)
                        | Returns (Some err) \<Rightarrow>
                            (Done (Returns (Some (Errorf
                               ''Error waiting for IPv6 CIDR (%s) to become disassociated: %s''
                               [ArgString (rd_Id d), ArgError err]))),
                             [CallDisassociateSubnetCidrBlock v None,
                              CallWaitForState stateConf (Returns (Some err))], d, w2)
                        | Returns None \<Rightarrow>
                            (FallThrough,
                             [CallDisassociateSubnetCidrBlock v None,
                              CallWaitForState stateConf (Returns None)], d, w2)))))"

text \<open>
  Lines 275-306: the new block is associated and the controller waits for the new
  association.
\<close>

definition associateConf :: "'w EC2 \<Rightarrow> ResourceData \<Rightarrow> string \<Rightarrow> 'w StateChangeConf" where
  "associateConf conn d newId =
     \<lparr>scc_Pending = [''associating'', ''disassociated''],
      scc_Target = [''associated''],
      scc_Refresh = SubnetIpv6CidrStateRefreshFunc conn (rd_Id d) newId,
      scc_Timeout = 3 * Minute,
      scc_MinTimeout = 0\<rparr>"

definition update_associate ::
  "'w collaborators \<Rightarrow> 'w EC2 \<Rightarrow> string \<Rightarrow> ResourceData \<Rightarrow> 'w \<Rightarrow> (flow, 'w) run" where
  "update_associate lib conn new d w =
     (let associatesOpts = \<lparr>asi_SubnetId = Some (rd_Id d), asi_Ipv6CidrBlock = Some new\<rparr>
      in case AssociateSubnetCidrBlock conn associatesOpts w of
           ((resp, Some err), w1) \<Rightarrow>
             (Done (Returns (Some err)),
              [CallAssociateSubnetCidrBlock associatesOpts (Some err)], d, w1)
         | ((resp, None), w1) \<Rightarrow>
             (case (case resp of
                      None \<Rightarrow> None
                    | Some r \<Rightarrow>
                        (case aso_Ipv6CidrBlockAssociation r of
                           None \<Rightarrow> None
                         | Some a \<Rightarrow> as_AssociationId a)) of
                None \<Rightarrow>
                  (Done (Panics NilPointerDereference),
                   [CallAssociateSubnetCidrBlock associatesOpts None], d, w1)
              | Some newId \<Rightarrow>
                  (let stateConf = associateConf conn d newId
                   in case WaitForState lib stateConf w1 of
                        (r, w2) \<Rightarrow>
                          (case waitOutcome r of
                             Panics p \<Rightarrow>
                               (Done (Panics p),
                                [CallAssociateSubnetCidrBlock associatesOpts None,
                                 CallWaitForState stateConf (Panics p)], d, w2)
                           | Returns (Some err) \<Rightarrow>
                               (Done (Returns (Some (Errorf
                                  ''Error waiting for IPv6 CIDR (%s) to become associated: %s''
                                  [ArgString (rd_Id d), ArgError err]))),
                                [CallAssociateSubnetCidrBlock associatesOpts None,
                                 CallWaitForState stateConf (Returns (Some err))], d, w2)
                           | Returns None \<Rightarrow>
                               (FallThrough,
                                [CallAssociateSubnetCidrBlock associatesOpts None,
                                 CallWaitForState stateConf (Returns None)],
                                SetPartial d ''ipv6_cidr_block'', w2)))))"

text \<open>Lines 235-307: the reassociation, guarded by the change and the new-resource mark.\<close>

definition update_ipv6CidrBlock ::
  "'w collaborators \<Rightarrow> 'w EC2 \<Rightarrow> ResourceData \<Rightarrow> 'w \<Rightarrow> (flow, 'w) run" where
  "update_ipv6CidrBlock lib conn d w =
     (if HasChange_string d ''ipv6_cidr_block'' \<and> \<not> rd_IsNewResource d then
        andThen (update_disassociate lib conn)
          (update_associate lib conn (snd (GetChange_string d ''ipv6_cidr_block''))) d w
      else (FallThrough, [], d, w))"

text \<open>Lines 309-327: \<^verbatim>\<open>assign_ipv6_address_on_creation\<close>.\<close>

definition update_assignIpv6AddressOnCreation ::
  "'w EC2 \<Rightarrow> ResourceData \<Rightarrow> 'w \<Rightarrow> (flow, 'w) run" where
  "update_assignIpv6AddressOnCreation conn d w =
     (if HasChange_bool d ''assign_ipv6_address_on_creation'' then
        (let modifyOpts =
               \<lparr>msa_SubnetId = Some (rd_Id d),
                msa_MapPublicIpOnLaunch = None,
                msa_AssignIpv6AddressOnCreation =
                  Some (Get_bool d ''assign_ipv6_address_on_creation'')\<rparr>
         in case ModifySubnetAttribute conn modifyOpts w of
              (Some err, w') \<Rightarrow>
                (Done (Returns (Some err)),
                 [CallModifySubnetAttribute modifyOpts (Some err)], d, w')
            | (None, w') \<Rightarrow>
                (FallThrough, [CallModifySubnetAttribute modifyOpts None],
                 SetPartial d ''assign_ipv6_address_on_creation'', w'))
      else (FallThrough, [], d, w))"

text \<open>
  The end of the function, lines 329-332: partial mode off and the read.
\<close>

definition update_finish ::
  "'w collaborators \<Rightarrow> 'w EC2 \<Rightarrow> (flow, 'w) run \<Rightarrow> (go_error option go, 'w) run" where
  "update_finish lib conn r =
     (case r of
        (Done res, es, d, w) \<Rightarrow> (res, es, d, w)
      | (FallThrough, es, d, w) \<Rightarrow>
          (case resourceAwsSubnetRead lib conn (d\<lparr>rd_partial := False\<rparr>) w of
             (res, es', d', w') \<Rightarrow> (res, es @ es', d', w')))"

text \<open>
  The whole function: partial mode on (line 206), the four blocks in order, and the
  end.
\<close>

definition resourceAwsSubnetUpdate ::
  "'w collaborators \<Rightarrow> 'w EC2 \<Rightarrow> ResourceData \<Rightarrow> 'w \<Rightarrow> (go_error option go, 'w) run" where
  "resourceAwsSubnetUpdate lib conn d w =
     update_finish lib conn
       (andThen (update_tags lib)
          (andThen (update_mapPublicIpOnLaunch conn)
             (andThen (update_ipv6CidrBlock lib conn)
                (update_assignIpv6AddressOnCreation conn)))
          (d\<lparr>rd_partial := True\<rparr>) w)"

text \<open>\<^verbatim>\<open>resourceAwsSubnetCreate\<close>, lines 100-148.\<close>

definition createConf :: "'w EC2 \<Rightarrow> ResourceData \<Rightarrow> string \<Rightarrow> 'w StateChangeConf" where
  "createConf conn d subnetId =
     \<lparr>scc_Pending = [''pending''],
      scc_Target = [''available''],
      scc_Refresh = SubnetStateRefreshFunc conn subnetId,
      scc_Timeout = ResourceData_Timeout d TimeoutCreate,
      scc_MinTimeout = 0\<rparr>"

definition createOpts :: "ResourceData \<Rightarrow> CreateSubnetInput" where
  "createOpts d =
     \<lparr>csi_AvailabilityZone = Some (Get_string d ''availability_zone''),
      csi_AvailabilityZoneId = Some (Get_string d ''availability_zone_id''),
      csi_CidrBlock = Some (Get_string d ''cidr_block''),
      csi_VpcId = Some (Get_string d ''vpc_id''),
      csi_Ipv6CidrBlock =
        (case GetOk_string d ''ipv6_cidr_block'' of
           (v, True) \<Rightarrow> Some v
         | (v, False) \<Rightarrow> None)\<rparr>"

definition resourceAwsSubnetCreate ::
  "'w collaborators \<Rightarrow> 'w EC2 \<Rightarrow> ResourceData \<Rightarrow> 'w \<Rightarrow> (go_error option go, 'w) run" where
  "resourceAwsSubnetCreate lib conn d w =
     (case CreateSubnet conn (createOpts d) w of
        ((resp, Some err), w1) \<Rightarrow>
          (Returns (Some (Errorf ''Error creating subnet: %s'' [ArgError err])),
           [CallCreateSubnet (createOpts d) (Some err)], d, w1)
      | ((resp, None), w1) \<Rightarrow>
          (case (case resp of
                   None \<Rightarrow> None
                 | Some r \<Rightarrow>
                     (case cso_Subnet r of
                        None \<Rightarrow> None
                      | Some subnet \<Rightarrow> sn_SubnetId subnet)) of
             None \<Rightarrow>
               (Panics NilPointerDereference, [CallCreateSubnet (createOpts d) None], d, w1)
           | Some subnetId \<Rightarrow>
               (let d1 = d\<lparr>rd_Id := subnetId\<rparr>;
                    stateConf = createConf conn d1 subnetId
                in case WaitForState lib stateConf w1 of
                     (r, w2) \<Rightarrow>
                       (case waitOutcome r of
                          Panics p \<Rightarrow>
                            (Panics p,
                             [CallCreateSubnet (createOpts d) None,
                              CallWaitForState stateConf (Panics p)], d1, w2)
                        | Returns (Some err) \<Rightarrow>
                            (Returns (Some (Errorf
                               ''Error waiting for subnet (%s) to become ready: %s''
                               [ArgString (rd_Id d1), ArgError err])),
                             [CallCreateSubnet (createOpts d) None,
                              CallWaitForState stateConf (Returns (Some err))], d1, w2)
                        | Returns None \<Rightarrow>
                            (case resourceAwsSubnetUpdate lib conn d1 w2 of
                               (res, es, d', w') \<Rightarrow>
                                 (res,
                                  [CallCreateSubnet (createOpts d) None,
                                   CallWaitForState stateConf (Returns None)] @ es,
                                  d', w'))))))"

text \<open>Lines 350-354 of \<^verbatim>\<open>resourceAwsSubnetDelete\<close>: the timeout of the delete wait.\<close>

definition locTimeout :: "ResourceData \<Rightarrow> Duration" where
  "locTimeout d =
     (if sint (ResourceData_Timeout d TimeoutDelete) \<le> sint (20 * Minute)
      then 34 * Minute
      else ResourceData_Timeout d TimeoutDelete)"

text \<open>Lines 356-387: the configuration of the delete wait.\<close>

definition deleteConf :: "'w EC2 \<Rightarrow> ResourceData \<Rightarrow> 'w StateChangeConf" where
  "deleteConf conn d =
     \<lparr>scc_Pending = [''pending''],
      scc_Target = [''destroyed''],
      scc_Refresh = resourceAwsSubnetDelete_Refresh conn (rd_Id d),
      scc_Timeout = locTimeout d,
      scc_MinTimeout = 1 * Second\<rparr>"

text \<open>\<^verbatim>\<open>resourceAwsSubnetDelete\<close>, lines 335-396.\<close>

definition resourceAwsSubnetDelete ::
  "'w collaborators \<Rightarrow> 'w EC2 \<Rightarrow> ResourceData \<Rightarrow> 'w \<Rightarrow> (go_error option go, 'w) run" where
  "resourceAwsSubnetDelete lib conn d w =
     (case deleteLingeringLambdaENIs lib d ''subnet-id'' w of
        (Some err, w1) \<Rightarrow>
          (Returns (Some (Errorf ''Failed to delete Lambda ENIs: %s'' [ArgError err])),
           [CallDeleteLingeringLambdaENIs (Some err)], d, w1)
      | (None, w1) \<Rightarrow>
          (case WaitForState lib (deleteConf conn d) w1 of
             (r, w2) \<Rightarrow>
               (case waitOutcome r of
                  Panics p \<Rightarrow>
                    (Panics p,
                     [CallDeleteLingeringLambdaENIs None,
                      CallWaitForState (deleteConf conn d) (Panics p)], d, w2)
                | Returns (Some err) \<Rightarrow>
                    (Returns (Some (Errorf ''Error deleting subnet: %s'' [ArgError err])),
                     [CallDeleteLingeringLambdaENIs None,
                      CallWaitForState (deleteConf conn d) (Returns (Some err))], d, w2)
                | Returns None \<Rightarrow>
                    (Returns None,
                     [CallDeleteLingeringLambdaENIs None,
                      CallWaitForState (deleteConf conn d) (Returns None)], d, w2))))"

section \<open>Placement-group controllers\<close>

text \<open>\<^verbatim>\<open>resourceAwsPlacementGroupRead\<close>, lines 94-112.\<close>

definition resourceAwsPlacementGroupRead ::
  "'w EC2 \<Rightarrow> ResourceData \<Rightarrow> 'w \<Rightarrow> (go_error option go, 'w) run" where
  "resourceAwsPlacementGroupRead conn d w =
     (case DescribePlacementGroups conn [rd_Id d] w of
        ((outp, Some e), w') \<Rightarrow>
          (Returns (Some e), [CallDescribePlacementGroups [rd_Id d] (Some e)], d, w')
      | ((None, None), w') \<Rightarrow>
          (Panics NilPointerDereference, [CallDescribePlacementGroups [rd_Id d] None], d, w')
      | ((Some r, None), w') \<Rightarrow>
          (case dpo_PlacementGroups r of
             [] \<Rightarrow> (Panics IndexOutOfRange, [CallDescribePlacementGroups [rd_Id d] None], d, w')
           | pg # _ \<Rightarrow>
               (Returns None, [CallDescribePlacementGroups [rd_Id d] None],
                Set_string (Set_string d ''name'' (pg_GroupName pg))
                  ''strategy'' (pg_Strategy pg),
                w')))"

text \<open>\<^verbatim>\<open>resourceAwsPlacementGroupCreate\<close>, lines 39-92.\<close>

definition placementGroupCreateConf :: "'w EC2 \<Rightarrow> string \<Rightarrow> 'w StateChangeConf" where
  "placementGroupCreateConf conn name =
     \<lparr>scc_Pending = [''pending''],
      scc_Target = [''available''],
      scc_Refresh = resourceAwsPlacementGroupCreate_Refresh conn name,
      scc_Timeout = 5 * Minute,
      scc_MinTimeout = 1 * Second\<rparr>"

definition resourceAwsPlacementGroupCreate ::
  "'w collaborators \<Rightarrow> 'w EC2 \<Rightarrow> ResourceData \<Rightarrow> 'w \<Rightarrow> (go_error option go, 'w) run" where
  "resourceAwsPlacementGroupCreate lib conn d w =
     (let name = Get_string d ''name'';
          strategy = Get_string d ''strategy''
      in case CreatePlacementGroup conn name strategy w of
           (Some err, w1) \<Rightarrow>
             (Returns (Some err), [CallCreatePlacementGroup name strategy (Some err)], d, w1)
         | (None, w1) \<Rightarrow>
             (case WaitForState lib (placementGroupCreateConf conn name) w1 of
                (r, w2) \<Rightarrow>
                  (case waitOutcome r of
                     Panics p \<Rightarrow>
                       (Panics p,
                        [CallCreatePlacementGroup name strategy None,
                         CallWaitForState (placementGroupCreateConf conn name) (Panics p)],
                        d, w2)
                   | Returns (Some err) \<Rightarrow>
                       (Returns (Some err),
                        [CallCreatePlacementGroup name strategy None,
                         CallWaitForState (placementGroupCreateConf conn name)
                           (Returns (Some err))],
                        d, w2)
                   | Returns None \<Rightarrow>
                       (case resourceAwsPlacementGroupRead conn (d\<lparr>rd_Id := name\<rparr>) w2 of
                          (res, es, d', w') \<Rightarrow>
                            (res,
                             [CallCreatePlacementGroup name strategy None,
                              CallWaitForState (placementGroupCreateConf conn name)
                                (Returns None)] @ es,
                             d', w')))))"

text \<open>\<^verbatim>\<open>resourceAwsPlacementGroupDelete\<close>, lines 114-161.\<close>

definition placementGroupDeleteConf :: "'w EC2 \<Rightarrow> string \<Rightarrow> 'w StateChangeConf" where
  "placementGroupDeleteConf conn group_id =
     \<lparr>scc_Pending = [''deleting''],
      scc_Target = [''deleted''],
      scc_Refresh = resourceAwsPlacementGroupDelete_Refresh conn group_id,
      scc_Timeout = 5 * Minute,
      scc_MinTimeout = 1 * Second\<rparr>"

definition resourceAwsPlacementGroupDelete ::
  "'w collaborators \<Rightarrow> 'w EC2 \<Rightarrow> ResourceData \<Rightarrow> 'w \<Rightarrow> (go_error option go, 'w) run" where
  "resourceAwsPlacementGroupDelete lib conn d w =
     (case DeletePlacementGroup conn (rd_Id d) w of
        (Some err, w1) \<Rightarrow>
          (Returns (Some err), [CallDeletePlacementGroup (rd_Id d) (Some err)], d, w1)
      | (None, w1) \<Rightarrow>
          (case WaitForState lib (placementGroupDeleteConf conn (rd_Id d)) w1 of
             (r, w2) \<Rightarrow>
               (waitOutcome r,
                [CallDeletePlacementGroup (rd_Id d) None,
                 CallWaitForState (placementGroupDeleteConf conn (rd_Id d)) (waitOutcome r)],
                d, w2)))"

section \<open>The poller\<close>

text \<open>
  Modelled from the spec: the poller (\<^verbatim>\<open>WaitForState\<close> of the SDK) is not under
  src/. It invokes the probe; an error of the probe stops it and is surfaced; a status
  in the target set stops it with the payload and no error; a status in neither set
  stops it with an error that names the status; a pending status lets it probe again,
  until the deadline, where it gives a timeout error with the last status seen. The
  deadline is the number of probes that fit before it. A panic of the probe ends the
  run.
\<close>

fun poll ::
  "nat \<Rightarrow> 'w StateChangeConf \<Rightarrow> string \<Rightarrow> 'w \<Rightarrow> (payload \<times> go_error option) go \<times> 'w" where
  "poll 0 conf seen w = (Returns (NilPayload, Some (TimeoutError seen)), w)"
| "poll (Suc n) conf seen w =
     (case scc_Refresh conf w of
        (Panics p, w') \<Rightarrow> (Panics p, w')
      | (Returns (res, status, Some err), w') \<Rightarrow> (Returns (NilPayload, Some err), w')
      | (Returns (res, status, None), w') \<Rightarrow>
          if status \<in> set (scc_Target conf) then (Returns (res, None), w')
          else if status \<in> set (scc_Pending conf) then poll n conf status w'
          else (Returns (NilPayload, Some (UnexpectedStateError status)), w'))"

section \<open>Scripted providers for concrete runs\<close>

text \<open>
  A provider that no script covers: every call fails and leaves the state alone. The
  scripted providers below change the calls they answer.
\<close>

definition unscripted :: "'w EC2" where
  "unscripted =
     \<lparr>CreateSubnet = (\<lambda>inp w. ((None, Some (PlainError ''unscripted'')), w)),
      DescribeSubnets = (\<lambda>ids w. ((None, Some (PlainError ''unscripted'')), w)),
      ModifySubnetAttribute = (\<lambda>inp w. (Some (PlainError ''unscripted''), w)),
      DisassociateSubnetCidrBlock = (\<lambda>a w. (Some (PlainError ''unscripted''), w)),
      AssociateSubnetCidrBlock = (\<lambda>inp w. ((None, Some (PlainError ''unscripted'')), w)),
      DeleteSubnet = (\<lambda>req w. (Some (PlainError ''unscripted''), w)),
      CreatePlacementGroup = (\<lambda>name strategy w. (Some (PlainError ''unscripted''), w)),
      DescribePlacementGroups = (\<lambda>names w. ((None, Some (PlainError ''unscripted'')), w)),
      DeletePlacementGroup = (\<lambda>name w. (Some (PlainError ''unscripted''), w))\<rparr>"

text \<open>
  The provider's state is the list of the errors its next delete calls return; once the
  list is used up a delete succeeds.
\<close>

definition scriptedDelete :: "(go_error option list) EC2" where
  "scriptedDelete =
     unscripted\<lparr>DeleteSubnet := (\<lambda>req w. case w of [] \<Rightarrow> (None, []) | e # es \<Rightarrow> (e, es))\<rparr>"

text \<open>A provider whose describe calls always give the same answer; its state counts them.\<close>

definition describing :: "DescribeSubnetsOutput option \<Rightarrow> go_error option \<Rightarrow> nat EC2" where
  "describing resp err = unscripted\<lparr>DescribeSubnets := (\<lambda>ids w. ((resp, err), Suc w))\<rparr>"

definition describingGroups ::
  "DescribePlacementGroupsOutput option \<Rightarrow> go_error option \<Rightarrow> nat EC2" where
  "describingGroups outp err =
     unscripted\<lparr>DescribePlacementGroups := (\<lambda>names w. ((outp, err), Suc w))\<rparr>"

definition association :: "string option \<Rightarrow> string option \<Rightarrow> SubnetIpv6CidrBlockAssociation" where
  "association assocId state =
     \<lparr>as_AssociationId = assocId,
      as_Ipv6CidrBlock = Some ''2001:db8:1234:1a00::/64'',
      as_Ipv6CidrBlockState = Some \<lparr>cbs_State = state\<rparr>\<rparr>"

definition subnet1 ::
  "SubnetIpv6CidrBlockAssociation list option \<Rightarrow> string option \<Rightarrow> Subnet" where
  "subnet1 associations state =
     \<lparr>sn_SubnetId = Some ''subnet-1'',
      sn_VpcId = Some ''vpc-1'',
      sn_AvailabilityZone = Some ''eu-west-1a'',
      sn_AvailabilityZoneId = Some ''euw1-az1'',
      sn_CidrBlock = Some ''10.0.1.0/24'',
      sn_MapPublicIpOnLaunch = Some False,
      sn_AssignIpv6AddressOnCreation = Some False,
      sn_Ipv6CidrBlockAssociationSet = associations,
      sn_SubnetArn = Some ''arn:aws:ec2:eu-west-1:1:subnet/subnet-1'',
      sn_Tags = [],
      sn_OwnerId = Some ''1'',
      sn_State = state\<rparr>"

text \<open>
  A provider on which every call succeeds; its state counts the calls. It describes
  subnet-1 as available, with an old association that is gone and a new one that is
  in place.
\<close>

definition provider :: "nat EC2" where
  "provider =
     \<lparr>CreateSubnet =
        (\<lambda>inp w. ((Some \<lparr>cso_Subnet = Some (subnet1 None (Some ''pending''))\<rparr>, None), Suc w)),
      DescribeSubnets =
        (\<lambda>ids w.
           ((Some \<lparr>dso_Subnets =
               [subnet1
                  (Some [association (Some ''assoc-old'') (Some ''disassociated''),
                         association (Some ''assoc-new'') (Some ''associated'')])
                  (Some ''available'')]\<rparr>, None), Suc w)),
      ModifySubnetAttribute = (\<lambda>inp w. (None, Suc w)),
      DisassociateSubnetCidrBlock = (\<lambda>a w. (None, Suc w)),
      AssociateSubnetCidrBlock =
        (\<lambda>inp w.
           ((Some \<lparr>aso_Ipv6CidrBlockAssociation =
               Some (association (Some ''assoc-new'') (Some ''associating''))\<rparr>, None), Suc w)),
      DeleteSubnet = (\<lambda>req w. (None, Suc w)),
      CreatePlacementGroup = (\<lambda>name strategy w. (None, Suc w)),
      DescribePlacementGroups =
        (\<lambda>names w.
           ((Some \<lparr>dpo_PlacementGroups =
               [\<lparr>pg_GroupName = Some ''pg-1'', pg_Strategy = Some ''cluster'',
                 pg_State = Some ''available''\<rparr>]\<rparr>, None), Suc w)),
      DeletePlacementGroup = (\<lambda>name w. (None, Suc w))\<rparr>"

text \<open>
  Collaborators that succeed, with the poller of the spec as \<^verbatim>\<open>WaitForState\<close>:
  \<open>n\<close> probes fit before each deadline.
\<close>

definition polling :: "nat \<Rightarrow> nat collaborators" where
  "polling n =
     \<lparr>setTags = (\<lambda>d w. (None, Suc w)),
      deleteLingeringLambdaENIs = (\<lambda>d k w. (None, Suc w)),
      tagsToMap = (\<lambda>tags. tags),
      WaitForState = (\<lambda>conf w. poll n conf '''' w)\<rparr>"

text \<open>
  Resource data for subnet-1 with the timeouts of the resource's schema and none
  configured: the prior state has one IPv6 block with its association, the plan has
  another block.
\<close>

definition priorState :: "string \<Rightarrow> string" where
  "priorState =
     (\<lambda>k. '''')
       (''ipv6_cidr_block'' := ''2001:db8:1234:1a00::/64'',
        ''ipv6_cidr_block_association_id'' := ''assoc-old'')"

definition planned :: "string \<Rightarrow> string" where
  "planned =
     (\<lambda>k. '''')
       (''ipv6_cidr_block'' := ''2001:db8:1234:1b00::/64'',
        ''ipv6_cidr_block_association_id'' := ''assoc-old'')"

definition resourceData :: "string \<Rightarrow> bool \<Rightarrow> ResourceTimeout \<Rightarrow> ResourceData" where
  "resourceData ident isNew config =
     \<lparr>rd_Id = ident,
      rd_stateString = priorState,
      rd_planString = planned,
      rd_setString = (\<lambda>k. None),
      rd_stateBool = (\<lambda>k. False),
      rd_planBool = (\<lambda>k. False),
      rd_setBool = (\<lambda>k. None),
      rd_tags = [],
      rd_IsNewResource = isNew,
      rd_partial = False,
      rd_partialKeys = [],
      rd_timeouts = ConfigDecode resourceAwsSubnet_Timeouts config\<rparr>"

section \<open>The subnet delete probe\<close>

lemma scriptedDelete_step [simp]:
  "DeleteSubnet scriptedDelete req (e # es) = (e, es)"
  "DeleteSubnet scriptedDelete req [] = (None, [])"
  by (simp_all add: scriptedDelete_def)

text \<open>
  C1. The probe of the subnet delete wait issues the delete call (the provider's state
  after the probe is its state after the call) and classifies the call's error: no
  error gives status destroyed with no error; an error with code DependencyViolation
  gives status pending with no error; an error with code InvalidSubnetID.NotFound gives
  status destroyed with no error; any other error, with another code or with none, is
  returned as the probe's error.
\<close>

theorem subnet_delete_probe_classification:
  assumes "DeleteSubnet conn req w = (err, w')"
  shows "resourceAwsSubnetDelete_Refresh conn req w =
     (Returns (IntPayload 42,
        (case err of
           None \<Rightarrow> (''destroyed'', None)
         | Some e \<Rightarrow>
             if awsCode e = Some ''DependencyViolation'' then (''pending'', None)
             else if awsCode e = Some ''InvalidSubnetID.NotFound'' then (''destroyed'', None)
             else (''failure'', Some e))), w')"
  using assms
  by (simp add: resourceAwsSubnetDelete_Refresh_def split: option.splits)

theorem subnet_delete_probe_classification_witness:
  "resourceAwsSubnetDelete_Refresh scriptedDelete ''subnet-1''
     [Some (AwsError ''DependencyViolation'' ''has dependencies''), None] =
     (Returns (IntPayload 42, ''pending'', None), [None])
   \<and> resourceAwsSubnetDelete_Refresh scriptedDelete ''subnet-1''
     [Some (AwsError ''InvalidSubnetID.NotFound'' ''gone'')] =
     (Returns (IntPayload 42, ''destroyed'', None), [])
   \<and> resourceAwsSubnetDelete_Refresh scriptedDelete ''subnet-1''
     [Some (AwsError ''UnauthorizedOperation'' ''denied'')] =
     (Returns (IntPayload 42, ''failure'', Some (AwsError ''UnauthorizedOperation'' ''denied'')), [])
   \<and> resourceAwsSubnetDelete_Refresh scriptedDelete ''subnet-1''
     [Some (PlainError ''connection reset'')] =
     (Returns (IntPayload 42, ''failure'', Some (PlainError ''connection reset'')), [])
   \<and> resourceAwsSubnetDelete_Refresh scriptedDelete ''subnet-1'' [None] =
     (Returns (IntPayload 42, ''destroyed'', None), [])"
  using
    subnet_delete_probe_classification [of scriptedDelete "''subnet-1''"
      "[Some (AwsError ''DependencyViolation'' ''has dependencies''), None]"
      "Some (AwsError ''DependencyViolation'' ''has dependencies'')" "[None]"]
    subnet_delete_probe_classification [of scriptedDelete "''subnet-1''"
      "[Some (AwsError ''InvalidSubnetID.NotFound'' ''gone'')]"
      "Some (AwsError ''InvalidSubnetID.NotFound'' ''gone'')" "[]"]
    subnet_delete_probe_classification [of scriptedDelete "''subnet-1''"
      "[Some (AwsError ''UnauthorizedOperation'' ''denied'')]"
      "Some (AwsError ''UnauthorizedOperation'' ''denied'')" "[]"]
    subnet_delete_probe_classification [of scriptedDelete "''subnet-1''"
      "[Some (PlainError ''connection reset'')]"
      "Some (PlainError ''connection reset'')" "[]"]
    subnet_delete_probe_classification [of scriptedDelete "''subnet-1''" "[None]" None "[]"]
  by simp

section \<open>The describe probes\<close>

lemma describing_step [simp]:
  "DescribeSubnets (describing resp err) ids w = ((resp, err), Suc w)"
  by (simp add: describing_def)

lemma describingGroups_step [simp]:
  "DescribePlacementGroups (describingGroups outp err) names w = ((outp, err), Suc w)"
  by (simp add: describingGroups_def)

text \<open>
  C5. The placement-group probes classify absence asymmetrically. When the describe
  call gives a response with no placement group and no error, the probe of the create
  wait returns an error (placement group not found) and the probe of the delete wait
  returns status deleted with no error. When the describe call gives an error with code
  InvalidPlacementGroup.Unknown, the probe of the delete wait returns status deleted
  with no error.
\<close>

theorem placement_group_probes_absence:
  "(DescribePlacementGroups conn [name] w = ((Some outp, None), w') \<and>
      dpo_PlacementGroups outp = [] \<longrightarrow>
      resourceAwsPlacementGroupCreate_Refresh conn name w =
        (Returns (PlacementGroupsPayload (Some outp), '''',
           Some (Errorf ''Placement group not found (%q)'' [ArgString name])), w') \<and>
      resourceAwsPlacementGroupDelete_Refresh conn name w =
        (Returns (PlacementGroupsPayload (Some outp), ''deleted'', None), w'))
   \<and> (DescribePlacementGroups conn [name] w = ((resp, Some e), w') \<and>
      awsCode e = Some ''InvalidPlacementGroup.Unknown'' \<longrightarrow>
      resourceAwsPlacementGroupDelete_Refresh conn name w =
        (Returns (PlacementGroupsPayload resp, ''deleted'', None), w'))"
  by (auto simp add: resourceAwsPlacementGroupCreate_Refresh_def
      resourceAwsPlacementGroupDelete_Refresh_def split: option.splits)

theorem placement_group_probes_absence_witness:
  "resourceAwsPlacementGroupCreate_Refresh
     (describingGroups (Some \<lparr>dpo_PlacementGroups = []\<rparr>) None) ''pg-1'' 0 =
     (Returns (PlacementGroupsPayload (Some \<lparr>dpo_PlacementGroups = []\<rparr>), '''',
        Some (Errorf ''Placement group not found (%q)'' [ArgString ''pg-1''])), 1)
   \<and> resourceAwsPlacementGroupDelete_Refresh
     (describingGroups (Some \<lparr>dpo_PlacementGroups = []\<rparr>) None) ''pg-1'' 0 =
     (Returns (PlacementGroupsPayload (Some \<lparr>dpo_PlacementGroups = []\<rparr>), ''deleted'', None), 1)
   \<and> resourceAwsPlacementGroupDelete_Refresh
     (describingGroups None (Some (AwsError ''InvalidPlacementGroup.Unknown'' ''no such group'')))
     ''pg-1'' 0 =
     (Returns (PlacementGroupsPayload None, ''deleted'', None), 1)"
  using
    placement_group_probes_absence
      [of "describingGroups (Some \<lparr>dpo_PlacementGroups = []\<rparr>) None" "''pg-1''" 0
          "\<lparr>dpo_PlacementGroups = []\<rparr>" 1 None
          "AwsError ''InvalidPlacementGroup.Unknown'' ''no such group''"]
    placement_group_probes_absence
      [of "describingGroups None
             (Some (AwsError ''InvalidPlacementGroup.Unknown'' ''no such group''))" "''pg-1''" 0
          "\<lparr>dpo_PlacementGroups = []\<rparr>" 1 None
          "AwsError ''InvalidPlacementGroup.Unknown'' ''no such group''"]
  by simp

text \<open>
  C6, as stated, fails: the claim has the creation probe return the first subnet and
  its state for every response that is neither an error nor nil. On a response whose
  subnet list is empty the probe indexes past the end of the list, and on a first subnet
  whose state member is absent it dereferences nil: it panics and returns nothing.
\<close>

theorem subnet_probe_counterexample:
  "SubnetStateRefreshFunc (describing (Some \<lparr>dso_Subnets = []\<rparr>) None) ''subnet-1'' 0 =
     (Panics IndexOutOfRange, 1)
   \<and> SubnetStateRefreshFunc
       (describing (Some \<lparr>dso_Subnets = [subnet1 None None]\<rparr>) None) ''subnet-1'' 0 =
     (Panics NilPointerDereference, 1)"
  by (simp add: SubnetStateRefreshFunc_def describeSubnetsResult_def subnet1_def)

text \<open>
  C6, amended. For every invocation of the subnet creation probe: a describe error with
  code InvalidSubnetID.NotFound, or a nil response with no error, gives a nil payload,
  the empty status and no error; a describe error with any other code, or with none, is
  returned as the error; and when the response lists at least one subnet and the first
  one carries its state, the probe returns that subnet and its state string with no
  error.
\<close>

theorem subnet_probe_results:
  assumes "DescribeSubnets conn [subnet_id] w = ((resp, err), w')"
  shows
    "((\<exists>e. err = Some e \<and> awsCode e = Some ''InvalidSubnetID.NotFound'') \<or>
        (err = None \<and> resp = None) \<longrightarrow>
        SubnetStateRefreshFunc conn subnet_id w = (Returns (NilPayload, '''', None), w'))
     \<and> (\<forall>e. err = Some e \<and> awsCode e \<noteq> Some ''InvalidSubnetID.NotFound'' \<longrightarrow>
        SubnetStateRefreshFunc conn subnet_id w = (Returns (NilPayload, '''', Some e), w'))
     \<and> (\<forall>r subnet others s.
          err = None \<and> resp = Some r \<and> dso_Subnets r = subnet # others \<and>
          sn_State subnet = Some s \<longrightarrow>
          SubnetStateRefreshFunc conn subnet_id w = (Returns (SubnetPayload subnet, s, None), w'))"
  using assms
  by (auto simp add: SubnetStateRefreshFunc_def describeSubnetsResult_def)

theorem subnet_probe_results_witness:
  "SubnetStateRefreshFunc
     (describing None (Some (AwsError ''InvalidSubnetID.NotFound'' ''not yet''))) ''subnet-1'' 0 =
     (Returns (NilPayload, '''', None), 1)
   \<and> SubnetStateRefreshFunc (describing None None) ''subnet-1'' 0 =
     (Returns (NilPayload, '''', None), 1)
   \<and> SubnetStateRefreshFunc
     (describing None (Some (AwsError ''RequestLimitExceeded'' ''slow down''))) ''subnet-1'' 0 =
     (Returns (NilPayload, '''', Some (AwsError ''RequestLimitExceeded'' ''slow down'')), 1)
   \<and> SubnetStateRefreshFunc
     (describing (Some \<lparr>dso_Subnets = [subnet1 None (Some ''pending'')]\<rparr>) None) ''subnet-1'' 0 =
     (Returns (SubnetPayload (subnet1 None (Some ''pending'')), ''pending'', None), 1)"
  using
    subnet_probe_results
      [of "describing None (Some (AwsError ''InvalidSubnetID.NotFound'' ''not yet''))"
          "''subnet-1''" 0 None "Some (AwsError ''InvalidSubnetID.NotFound'' ''not yet'')" 1]
    subnet_probe_results [of "describing None None" "''subnet-1''" 0 None None 1]
    subnet_probe_results
      [of "describing None (Some (AwsError ''RequestLimitExceeded'' ''slow down''))"
          "''subnet-1''" 0 None "Some (AwsError ''RequestLimitExceeded'' ''slow down'')" 1]
    subnet_probe_results
      [of "describing (Some \<lparr>dso_Subnets = [subnet1 None (Some ''pending'')]\<rparr>) None"
          "''subnet-1''" 0 "Some \<lparr>dso_Subnets = [subnet1 None (Some ''pending'')]\<rparr>" None 1]
  by (simp add: subnet1_def)

section \<open>The association probe\<close>

lemma scanAssociations_skip:
  "\<forall>b\<in>set pre. \<exists>i. as_AssociationId b = Some i \<and> i \<noteq> aid \<Longrightarrow>
   scanAssociations aid (pre @ rest) = scanAssociations aid rest"
  by (induction pre) auto

lemma scanAssociations_no_error:
  "scanAssociations aid as = Returns (p, s, e) \<Longrightarrow> e = None"
  by (induction as) (auto split: option.splits if_splits)

text \<open>
  C7, as stated, fails: the claim has the association probe return the first entry with
  the tracked identifier, and a nil payload when there is none, for every non-nil
  response without error. The scan dereferences the identifier of every entry it meets
  and the state of the match, so it panics on an entry without identifier met before
  the match and on a match without state; and the probe indexes the subnet list without
  a check, so it panics on a response with no subnet.
\<close>

theorem cidr_probe_counterexample:
  "SubnetIpv6CidrStateRefreshFunc
     (describing (Some \<lparr>dso_Subnets =
        [subnet1 (Some [association None (Some ''associated''),
                        association (Some ''assoc-1'') (Some ''disassociating'')])
           (Some ''available'')]\<rparr>) None)
     ''subnet-1'' ''assoc-1'' 0 = (Panics NilPointerDereference, 1)
   \<and> SubnetIpv6CidrStateRefreshFunc
     (describing (Some \<lparr>dso_Subnets =
        [subnet1 (Some [association (Some ''assoc-1'') None]) (Some ''available'')]\<rparr>) None)
     ''subnet-1'' ''assoc-1'' 0 = (Panics NilPointerDereference, 1)
   \<and> SubnetIpv6CidrStateRefreshFunc (describing (Some \<lparr>dso_Subnets = []\<rparr>) None)
     ''subnet-1'' ''assoc-1'' 0 = (Panics IndexOutOfRange, 1)"
  by (simp add: SubnetIpv6CidrStateRefreshFunc_def describeSubnetsResult_def subnet1_def
      association_def)

text \<open>
  C7, amended. For every invocation of the association probe that obtains, without
  error, a response that lists at least one subnet: when the first subnet's association
  list is nil the probe returns a nil payload, the empty status and no error; when the
  list holds an entry with the tracked identifier and a state, and every entry before
  it carries another identifier, the probe returns that entry (the first such in scan
  order) and its state string with no error; when every entry of the list carries an
  identifier other than the tracked one, the probe returns a nil payload, the empty
  status and no error; and whatever the probe returns there, it is never an error.
\<close>

theorem cidr_probe_scan:
  assumes "DescribeSubnets conn [subnet_id] w = ((Some resp, None), w')"
    and "dso_Subnets resp = subnet # others"
  shows
    "(sn_Ipv6CidrBlockAssociationSet subnet = None \<longrightarrow>
        SubnetIpv6CidrStateRefreshFunc conn subnet_id aid w = (Returns (NilPayload, '''', None), w'))
     \<and> (\<forall>pre a post st s.
          sn_Ipv6CidrBlockAssociationSet subnet = Some (pre @ a # post) \<and>
          (\<forall>b\<in>set pre. \<exists>i. as_AssociationId b = Some i \<and> i \<noteq> aid) \<and>
          as_AssociationId a = Some aid \<and>
          as_Ipv6CidrBlockState a = Some st \<and> cbs_State st = Some s \<longrightarrow>
          SubnetIpv6CidrStateRefreshFunc conn subnet_id aid w =
            (Returns (AssociationPayload a, s, None), w'))
     \<and> (\<forall>as.
          sn_Ipv6CidrBlockAssociationSet subnet = Some as \<and>
          (\<forall>b\<in>set as. \<exists>i. as_AssociationId b = Some i \<and> i \<noteq> aid) \<longrightarrow>
          SubnetIpv6CidrStateRefreshFunc conn subnet_id aid w = (Returns (NilPayload, '''', None), w'))
     \<and> (\<forall>p s e.
          SubnetIpv6CidrStateRefreshFunc conn subnet_id aid w = (Returns (p, s, e), w') \<longrightarrow>
          e = None)"
proof -
  have probe:
    "SubnetIpv6CidrStateRefreshFunc conn subnet_id aid w =
       (case sn_Ipv6CidrBlockAssociationSet subnet of
          None \<Rightarrow> (Returns (NilPayload, '''', None), w')
        | Some as \<Rightarrow> (scanAssociations aid as, w'))"
    using assms by (simp add: SubnetIpv6CidrStateRefreshFunc_def describeSubnetsResult_def)
  have nil: "sn_Ipv6CidrBlockAssociationSet subnet = None \<longrightarrow>
      SubnetIpv6CidrStateRefreshFunc conn subnet_id aid w = (Returns (NilPayload, '''', None), w')"
    by (simp add: probe)
  have found: "SubnetIpv6CidrStateRefreshFunc conn subnet_id aid w =
      (Returns (AssociationPayload a, s, None), w')"
    if "sn_Ipv6CidrBlockAssociationSet subnet = Some (pre @ a # post)"
      and "\<forall>b\<in>set pre. \<exists>i. as_AssociationId b = Some i \<and> i \<noteq> aid"
      and "as_AssociationId a = Some aid"
      and "as_Ipv6CidrBlockState a = Some st" and "cbs_State st = Some s"
    for pre a post st s
    using that by (simp add: probe scanAssociations_skip)
  have missing: "SubnetIpv6CidrStateRefreshFunc conn subnet_id aid w =
      (Returns (NilPayload, '''', None), w')"
    if "sn_Ipv6CidrBlockAssociationSet subnet = Some as"
      and "\<forall>b\<in>set as. \<exists>i. as_AssociationId b = Some i \<and> i \<noteq> aid"
    for as
    using that scanAssociations_skip [of as aid "[]"] by (simp add: probe)
  have no_error: "e = None"
    if "SubnetIpv6CidrStateRefreshFunc conn subnet_id aid w = (Returns (p, s, e), w')"
    for p s e
    using that
    by (auto simp add: probe split: option.splits dest: scanAssociations_no_error)
  show ?thesis
    using nil found missing no_error by blast
qed

theorem cidr_probe_scan_witness:
  "SubnetIpv6CidrStateRefreshFunc
     (describing (Some \<lparr>dso_Subnets =
        [subnet1 (Some [association (Some ''assoc-0'') (Some ''associated''),
                        association (Some ''assoc-1'') (Some ''disassociating''),
                        association (Some ''assoc-1'') (Some ''disassociated'')])
           (Some ''available'')]\<rparr>) None)
     ''subnet-1'' ''assoc-1'' 0 =
     (Returns (AssociationPayload (association (Some ''assoc-1'') (Some ''disassociating'')),
        ''disassociating'', None), 1)
   \<and> SubnetIpv6CidrStateRefreshFunc
     (describing (Some \<lparr>dso_Subnets =
        [subnet1 (Some [association (Some ''assoc-0'') (Some ''associated'')])
           (Some ''available'')]\<rparr>) None)
     ''subnet-1'' ''assoc-1'' 0 = (Returns (NilPayload, '''', None), 1)
   \<and> SubnetIpv6CidrStateRefreshFunc
     (describing (Some \<lparr>dso_Subnets = [subnet1 None (Some ''available'')]\<rparr>) None)
     ''subnet-1'' ''assoc-1'' 0 = (Returns (NilPayload, '''', None), 1)"
proof -
  let ?a0 = "association (Some ''assoc-0'') (Some ''associated'')"
  let ?a1 = "association (Some ''assoc-1'') (Some ''disassociating'')"
  let ?a2 = "association (Some ''assoc-1'') (Some ''disassociated'')"
  let ?s1 = "subnet1 (Some [?a0, ?a1, ?a2]) (Some ''available'')"
  let ?s2 = "subnet1 (Some [?a0]) (Some ''available'')"
  let ?s3 = "subnet1 None (Some ''available'')"
  have d: "DescribeSubnets (describing (Some \<lparr>dso_Subnets = [s]\<rparr>) None) [''subnet-1''] 0 =
      ((Some \<lparr>dso_Subnets = [s]\<rparr>, None), 1)" for s
    by (simp add: describing_def)
  have l: "dso_Subnets \<lparr>dso_Subnets = [s]\<rparr> = s # []" for s :: Subnet
    by simp
  have "SubnetIpv6CidrStateRefreshFunc (describing (Some \<lparr>dso_Subnets = [?s1]\<rparr>) None)
      ''subnet-1'' ''assoc-1'' 0 = (Returns (AssociationPayload ?a1, ''disassociating'', None), 1)"
    using cidr_probe_scan [OF d l, of ?s1 "''assoc-1''", THEN conjunct2, THEN conjunct1,
        rule_format, of "[?a0]" ?a1 "[?a2]" "\<lparr>cbs_State = Some ''disassociating''\<rparr>"
        "''disassociating''"]
    by (simp add: subnet1_def association_def)
  moreover have "SubnetIpv6CidrStateRefreshFunc (describing (Some \<lparr>dso_Subnets = [?s2]\<rparr>) None)
      ''subnet-1'' ''assoc-1'' 0 = (Returns (NilPayload, '''', None), 1)"
    using cidr_probe_scan [OF d l, of ?s2 "''assoc-1''", THEN conjunct2, THEN conjunct2,
        THEN conjunct1, rule_format, of "[?a0]"]
    by (simp add: subnet1_def association_def)
  moreover have "SubnetIpv6CidrStateRefreshFunc (describing (Some \<lparr>dso_Subnets = [?s3]\<rparr>) None)
      ''subnet-1'' ''assoc-1'' 0 = (Returns (NilPayload, '''', None), 1)"
    using cidr_probe_scan [OF d l, of ?s3 "''assoc-1''", THEN conjunct1]
    by (simp add: subnet1_def)
  ultimately show ?thesis by blast
qed

section \<open>Unchecked first elements and type assertions\<close>

lemma firstAssociated_panic:
  "firstAssociated as = Panics p \<Longrightarrow> p = NilPointerDereference"
  by (induction as) (auto split: option.splits if_splits)

lemma readSubnetInto_panic:
  "readSubnetInto lib subnet d = (Panics p, d') \<Longrightarrow> p = NilPointerDereference"
  by (auto simp add: readSubnetInto_def Let_def split: go.splits dest: firstAssociated_panic)

text \<open>
  C9. The placement-group read, the subnet read and the subnet creation probe take the
  first element of the described list without checking its length: each of them ends in
  an index-out-of-range panic, not in an error return, exactly when the describe call
  gives, without error, a non-nil response whose list is empty.
\<close>

theorem first_element_unchecked:
  "(fst (resourceAwsPlacementGroupRead conn d w) = Panics IndexOutOfRange) =
     (\<exists>outp w'. DescribePlacementGroups conn [rd_Id d] w = ((Some outp, None), w') \<and>
        dpo_PlacementGroups outp = [])
   \<and> (fst (resourceAwsSubnetRead lib conn d w) = Panics IndexOutOfRange) =
     (\<exists>resp w'. DescribeSubnets conn [rd_Id d] w = ((Some resp, None), w') \<and>
        dso_Subnets resp = [])
   \<and> (fst (SubnetStateRefreshFunc conn subnet_id w) = Panics IndexOutOfRange) =
     (\<exists>resp w'. DescribeSubnets conn [subnet_id] w = ((Some resp, None), w') \<and>
        dso_Subnets resp = [])"
proof (intro conjI)
  show "(fst (resourceAwsPlacementGroupRead conn d w) = Panics IndexOutOfRange) =
     (\<exists>outp w'. DescribePlacementGroups conn [rd_Id d] w = ((Some outp, None), w') \<and>
        dpo_PlacementGroups outp = [])"
    by (cases "DescribePlacementGroups conn [rd_Id d] w")
      (auto simp add: resourceAwsPlacementGroupRead_def split: option.splits list.splits)
  show "(fst (resourceAwsSubnetRead lib conn d w) = Panics IndexOutOfRange) =
     (\<exists>resp w'. DescribeSubnets conn [rd_Id d] w = ((Some resp, None), w') \<and>
        dso_Subnets resp = [])"
    by (cases "DescribeSubnets conn [rd_Id d] w")
      (auto simp add: resourceAwsSubnetRead_def
        split: option.splits list.splits prod.splits dest: readSubnetInto_panic)
  show "(fst (SubnetStateRefreshFunc conn subnet_id w) = Panics IndexOutOfRange) =
     (\<exists>resp w'. DescribeSubnets conn [subnet_id] w = ((Some resp, None), w') \<and>
        dso_Subnets resp = [])"
    by (cases "DescribeSubnets conn [subnet_id] w")
      (auto simp add: SubnetStateRefreshFunc_def describeSubnetsResult_def
        split: option.splits list.splits if_splits)
qed

text \<open>
  C10. The probe of the placement-group delete wait asserts without a check that the
  describe error is a structured provider error: when the describe call returns an
  error, the probe panics on the type assertion exactly when the error carries no code,
  and that assertion panics in no other case. The subnet probes guard the assertion: on
  an error without code the creation probe and the association probe return that error
  with a nil payload and the empty status, and the delete probe returns it with status
  failure.
\<close>

theorem unchecked_assertion_in_group_delete_probe:
  "(DescribePlacementGroups conn [group_id] w = ((outp, Some e), w') \<longrightarrow>
      (fst (resourceAwsPlacementGroupDelete_Refresh conn group_id w) = Panics InterfaceConversion) =
      (awsCode e = None))
   \<and> (fst (resourceAwsPlacementGroupDelete_Refresh conn group_id w) = Panics InterfaceConversion
        \<longrightarrow> (\<exists>outp e w'. DescribePlacementGroups conn [group_id] w = ((outp, Some e), w') \<and>
               awsCode e = None))
   \<and> (DescribeSubnets conn [subnet_id] w = ((resp, Some e), w') \<and> awsCode e = None \<longrightarrow>
        SubnetStateRefreshFunc conn subnet_id w = (Returns (NilPayload, '''', Some e), w') \<and>
        SubnetIpv6CidrStateRefreshFunc conn subnet_id aid w =
          (Returns (NilPayload, '''', Some e), w'))
   \<and> (DeleteSubnet conn subnet_id w = (Some e, w') \<and> awsCode e = None \<longrightarrow>
        resourceAwsSubnetDelete_Refresh conn subnet_id w =
          (Returns (IntPayload 42, ''failure'', Some e), w'))"
proof (intro conjI)
  show "DescribePlacementGroups conn [group_id] w = ((outp, Some e), w') \<longrightarrow>
      (fst (resourceAwsPlacementGroupDelete_Refresh conn group_id w) = Panics InterfaceConversion) =
      (awsCode e = None)"
    by (auto simp add: resourceAwsPlacementGroupDelete_Refresh_def split: option.splits)
  show "fst (resourceAwsPlacementGroupDelete_Refresh conn group_id w) = Panics InterfaceConversion
        \<longrightarrow> (\<exists>outp e w'. DescribePlacementGroups conn [group_id] w = ((outp, Some e), w') \<and>
               awsCode e = None)"
    by (cases "DescribePlacementGroups conn [group_id] w")
      (auto simp add: resourceAwsPlacementGroupDelete_Refresh_def
        split: option.splits list.splits if_splits)
  show "DescribeSubnets conn [subnet_id] w = ((resp, Some e), w') \<and> awsCode e = None \<longrightarrow>
        SubnetStateRefreshFunc conn subnet_id w = (Returns (NilPayload, '''', Some e), w') \<and>
        SubnetIpv6CidrStateRefreshFunc conn subnet_id aid w =
          (Returns (NilPayload, '''', Some e), w')"
    by (simp add: SubnetStateRefreshFunc_def SubnetIpv6CidrStateRefreshFunc_def
        describeSubnetsResult_def)
  show "DeleteSubnet conn subnet_id w = (Some e, w') \<and> awsCode e = None \<longrightarrow>
        resourceAwsSubnetDelete_Refresh conn subnet_id w =
          (Returns (IntPayload 42, ''failure'', Some e), w')"
    by (simp add: resourceAwsSubnetDelete_Refresh_def)
qed

theorem unchecked_assertion_in_group_delete_probe_witness:
  "resourceAwsPlacementGroupDelete_Refresh
     (describingGroups None (Some (PlainError ''connection reset''))) ''pg-1'' 0 =
     (Panics InterfaceConversion, 1)
   \<and> SubnetStateRefreshFunc
     (describing None (Some (PlainError ''connection reset''))) ''subnet-1'' 0 =
     (Returns (NilPayload, '''', Some (PlainError ''connection reset'')), 1)
   \<and> SubnetIpv6CidrStateRefreshFunc
     (describing None (Some (PlainError ''connection reset''))) ''subnet-1'' ''assoc-1'' 0 =
     (Returns (NilPayload, '''', Some (PlainError ''connection reset'')), 1)
   \<and> resourceAwsSubnetDelete_Refresh scriptedDelete ''subnet-1''
     [Some (PlainError ''connection reset'')] =
     (Returns (IntPayload 42, ''failure'', Some (PlainError ''connection reset'')), [])"
proof -
  have "fst (resourceAwsPlacementGroupDelete_Refresh
     (describingGroups None (Some (PlainError ''connection reset''))) ''pg-1'' 0) =
     Panics InterfaceConversion"
    using unchecked_assertion_in_group_delete_probe
      [where conn = "describingGroups None (Some (PlainError ''connection reset''))"
        and group_id = "''pg-1''" and w = 0 and outp = None
        and e = "PlainError ''connection reset''" and w' = 1, THEN conjunct1]
    by simp
  moreover have "snd (resourceAwsPlacementGroupDelete_Refresh
     (describingGroups None (Some (PlainError ''connection reset''))) ''pg-1'' 0) = 1"
    by (simp add: resourceAwsPlacementGroupDelete_Refresh_def)
  ultimately have "resourceAwsPlacementGroupDelete_Refresh
     (describingGroups None (Some (PlainError ''connection reset''))) ''pg-1'' 0 =
     (Panics InterfaceConversion, 1)"
    by (simp add: prod_eq_iff)
  moreover have "SubnetStateRefreshFunc
     (describing None (Some (PlainError ''connection reset''))) ''subnet-1'' 0 =
     (Returns (NilPayload, '''', Some (PlainError ''connection reset'')), 1)
   \<and> SubnetIpv6CidrStateRefreshFunc
     (describing None (Some (PlainError ''connection reset''))) ''subnet-1'' ''assoc-1'' 0 =
     (Returns (NilPayload, '''', Some (PlainError ''connection reset'')), 1)"
    using unchecked_assertion_in_group_delete_probe
      [where conn = "describing None (Some (PlainError ''connection reset''))"
        and subnet_id = "''subnet-1''" and w = 0 and resp = None
        and e = "PlainError ''connection reset''" and w' = 1 and aid = "''assoc-1''",
        THEN conjunct2, THEN conjunct2, THEN conjunct1]
    by simp
  ultimately show ?thesis by (simp add: resourceAwsSubnetDelete_Refresh_def)
qed

section \<open>The delete timeout\<close>

lemma minutes_in_range:
  "sint (20 * Minute) = 20 * 60 * 1000000000"
  "sint (32 * Minute) = 32 * 60 * 1000000000"
  "sint (34 * Minute) = 34 * 60 * 1000000000"
  "sint (10 * Minute) = 10 * 60 * 1000000000"
  "sint (3 * Minute) = 3 * 60 * 1000000000"
  by (simp_all add: Minute_def Second_def)

lemma provider_calls [simp]:
  "DeleteSubnet provider req w = (None, Suc w)"
  "ModifySubnetAttribute provider minp w = (None, Suc w)"
  "DisassociateSubnetCidrBlock provider a w = (None, Suc w)"
  "AssociateSubnetCidrBlock provider ainp w =
     ((Some \<lparr>aso_Ipv6CidrBlockAssociation =
         Some (association (Some ''assoc-new'') (Some ''associating''))\<rparr>, None), Suc w)"
  "CreateSubnet provider cinp w =
     ((Some \<lparr>cso_Subnet = Some (subnet1 None (Some ''pending''))\<rparr>, None), Suc w)"
  "DescribeSubnets provider ids w =
     ((Some \<lparr>dso_Subnets =
         [subnet1
            (Some [association (Some ''assoc-old'') (Some ''disassociated''),
                   association (Some ''assoc-new'') (Some ''associated'')])
            (Some ''available'')]\<rparr>, None), Suc w)"
  by (simp_all add: provider_def)

lemma polling_calls [simp]:
  "setTags (polling n) d w = (None, Suc w)"
  "deleteLingeringLambdaENIs (polling n) d k w = (None, Suc w)"
  "tagsToMap (polling n) tags = tags"
  "WaitForState (polling n) conf w = poll n conf '''' w"
  by (simp_all add: polling_def)

text \<open>
  C3. When the removal of the lingering network interfaces succeeds, the subnet delete
  controller waits with the configuration of the delete wait, whose timeout is 34
  minutes whenever the timeout the caller configured for delete is at most 20 minutes
  (as signed nanosecond counts) and is that timeout unchanged otherwise. The timeout of
  delete is the one the configuration gives and, where it gives none, the 32 minutes of
  the resource's schema, which the wait then uses unchanged.
\<close>

theorem subnet_delete_timeout:
  "(deleteLingeringLambdaENIs lib d ''subnet-id'' w = (None, w') \<longrightarrow>
      (\<exists>out. trace_of (resourceAwsSubnetDelete lib conn d w) =
         [CallDeleteLingeringLambdaENIs None, CallWaitForState (deleteConf conn d) out]))
   \<and> scc_Timeout (deleteConf conn d) =
       (if sint (ResourceData_Timeout d TimeoutDelete) \<le> 20 * 60 * 1000000000
        then 34 * Minute else ResourceData_Timeout d TimeoutDelete)
   \<and> sint (34 * Minute) = 34 * 60 * 1000000000
   \<and> (rd_timeouts d = ConfigDecode resourceAwsSubnet_Timeouts config \<longrightarrow>
        ResourceData_Timeout d TimeoutDelete =
          (case rt_Delete config of None \<Rightarrow> 32 * Minute | Some t \<Rightarrow> t))
   \<and> (rd_timeouts d = ConfigDecode resourceAwsSubnet_Timeouts config \<and>
        rt_Delete config = None \<longrightarrow>
        scc_Timeout (deleteConf conn d) = 32 * Minute \<and>
        sint (32 * Minute) = 32 * 60 * 1000000000)"
proof (intro conjI)
  show "deleteLingeringLambdaENIs lib d ''subnet-id'' w = (None, w') \<longrightarrow>
      (\<exists>out. trace_of (resourceAwsSubnetDelete lib conn d w) =
         [CallDeleteLingeringLambdaENIs None, CallWaitForState (deleteConf conn d) out])"
    by (auto simp add: resourceAwsSubnetDelete_def trace_of_def
        split: prod.splits go.splits option.splits)
  show "scc_Timeout (deleteConf conn d) =
       (if sint (ResourceData_Timeout d TimeoutDelete) \<le> 20 * 60 * 1000000000
        then 34 * Minute else ResourceData_Timeout d TimeoutDelete)"
    by (simp add: deleteConf_def locTimeout_def minutes_in_range)
  show "sint (34 * Minute) = 34 * 60 * 1000000000"
    by (simp add: minutes_in_range)
  show "rd_timeouts d = ConfigDecode resourceAwsSubnet_Timeouts config \<longrightarrow>
        ResourceData_Timeout d TimeoutDelete =
          (case rt_Delete config of None \<Rightarrow> 32 * Minute | Some t \<Rightarrow> t)"
    by (simp add: ResourceData_Timeout_def rt_lookup_def ConfigDecode_def
        resourceAwsSubnet_Timeouts_def split: option.splits)
  show "rd_timeouts d = ConfigDecode resourceAwsSubnet_Timeouts config \<and>
        rt_Delete config = None \<longrightarrow>
        scc_Timeout (deleteConf conn d) = 32 * Minute \<and>
        sint (32 * Minute) = 32 * 60 * 1000000000"
    by (simp add: deleteConf_def locTimeout_def ResourceData_Timeout_def rt_lookup_def
        ConfigDecode_def resourceAwsSubnet_Timeouts_def minutes_in_range)
qed

theorem subnet_delete_timeout_witness:
  "trace_of (resourceAwsSubnetDelete (polling 3) provider
      (resourceData ''subnet-1'' False \<lparr>rt_Create = None, rt_Delete = None\<rparr>) 0) =
     [CallDeleteLingeringLambdaENIs None,
      CallWaitForState
        (deleteConf provider
           (resourceData ''subnet-1'' False \<lparr>rt_Create = None, rt_Delete = None\<rparr>))
        (Returns None)]
   \<and> scc_Timeout (deleteConf provider
        (resourceData ''subnet-1'' False \<lparr>rt_Create = None, rt_Delete = None\<rparr>)) = 32 * Minute
   \<and> scc_Timeout (deleteConf provider
        (resourceData ''subnet-1'' False \<lparr>rt_Create = None, rt_Delete = Some (5 * Minute)\<rparr>)) =
      34 * Minute"
proof -
  let ?d = "resourceData ''subnet-1'' False \<lparr>rt_Create = None, rt_Delete = None\<rparr>"
  let ?d5 = "resourceData ''subnet-1'' False \<lparr>rt_Create = None, rt_Delete = Some (5 * Minute)\<rparr>"
  note t = subnet_delete_timeout [where lib = "polling 3" and conn = provider and d = ?d
      and w = 0 and w' = 1 and config = "\<lparr>rt_Create = None, rt_Delete = None\<rparr>"]
  note t5 = subnet_delete_timeout [where lib = "polling 3" and conn = provider and d = ?d5
      and w = 0 and w' = 1 and config = "\<lparr>rt_Create = None, rt_Delete = Some (5 * Minute)\<rparr>"]
  have run: "resourceAwsSubnetDelete (polling 3) provider ?d 0 =
      (Returns None,
       [CallDeleteLingeringLambdaENIs None, CallWaitForState (deleteConf provider ?d) (Returns None)],
       ?d, 2)"
    by (simp add: resourceAwsSubnetDelete_def deleteConf_def resourceAwsSubnetDelete_Refresh_def
        numeral_3_eq_3)
  have "scc_Timeout (deleteConf provider ?d) = 32 * Minute"
    using t by (simp add: resourceData_def)
  moreover have "ResourceData_Timeout ?d5 TimeoutDelete = 5 * Minute"
    using t5 by (simp add: resourceData_def)
  then have "scc_Timeout (deleteConf provider ?d5) = 34 * Minute"
    using t5 by (simp add: Minute_def Second_def)
  ultimately show ?thesis
    using run by (simp add: trace_of_def)
qed

section \<open>Blocks of the update controller\<close>

lemma SetPartial_reads [simp]:
  "rd_Id (SetPartial d k) = rd_Id d"
  "rd_IsNewResource (SetPartial d k) = rd_IsNewResource d"
  "HasChange_string (SetPartial d k) x = HasChange_string d x"
  "HasChange_bool (SetPartial d k) x = HasChange_bool d x"
  "Get_string (SetPartial d k) x = Get_string d x"
  "Get_bool (SetPartial d k) x = Get_bool d x"
  "GetOk_string (SetPartial d k) x = GetOk_string d x"
  "GetChange_string (SetPartial d k) x = GetChange_string d x"
  by (simp_all add: SetPartial_def HasChange_string_def HasChange_bool_def Get_string_def
      Get_bool_def GetOk_string_def GetChange_string_def split: option.splits)

lemma partial_reads [simp]:
  "HasChange_string (d\<lparr>rd_partial := b\<rparr>) x = HasChange_string d x"
  "HasChange_bool (d\<lparr>rd_partial := b\<rparr>) x = HasChange_bool d x"
  "Get_string (d\<lparr>rd_partial := b\<rparr>) x = Get_string d x"
  "Get_bool (d\<lparr>rd_partial := b\<rparr>) x = Get_bool d x"
  "GetOk_string (d\<lparr>rd_partial := b\<rparr>) x = GetOk_string d x"
  "GetChange_string (d\<lparr>rd_partial := b\<rparr>) x = GetChange_string d x"
  by (simp_all add: HasChange_string_def HasChange_bool_def Get_string_def
      Get_bool_def GetOk_string_def GetChange_string_def split: option.splits)

lemma SetPartial_fields [simp]:
  "rd_planString (SetPartial d k) = rd_planString d"
  "rd_stateString (SetPartial d k) = rd_stateString d"
  "rd_setString (SetPartial d k) = rd_setString d"
  by (simp_all add: SetPartial_def)

lemma update_tags_cases:
  "update_tags lib d w = (f, es, d', w') \<Longrightarrow>
   (\<exists>e. es = [CallSetTags e]) \<and> (d' = d \<or> d' = SetPartial d ''tags'') \<and>
   (f = FallThrough \<or> (\<exists>e. f = Done (Returns (Some e))))"
  by (auto simp add: update_tags_def split: prod.splits option.splits)

lemma update_mapPublicIpOnLaunch_cases:
  "update_mapPublicIpOnLaunch conn d w = (f, es, d', w') \<Longrightarrow>
   (es = [] \<or> (\<exists>inp e. es = [CallModifySubnetAttribute inp e])) \<and>
   (d' = d \<or> d' = SetPartial d ''map_public_ip_on_launch'') \<and>
   (f = FallThrough \<or> (\<exists>e. f = Done (Returns (Some e))))"
  by (auto simp add: update_mapPublicIpOnLaunch_def Let_def
      split: prod.splits option.splits if_splits)

lemma update_assignIpv6AddressOnCreation_cases:
  "update_assignIpv6AddressOnCreation conn d w = (f, es, d', w') \<Longrightarrow>
   (es = [] \<or> (\<exists>inp e. es = [CallModifySubnetAttribute inp e])) \<and>
   (f = FallThrough \<or> (\<exists>e. f = Done (Returns (Some e))))"
  by (auto simp add: update_assignIpv6AddressOnCreation_def Let_def
      split: prod.splits option.splits if_splits)

lemma resourceAwsSubnetRead_trace:
  "\<exists>e. trace_of (resourceAwsSubnetRead lib conn d w) = [CallDescribeSubnets [rd_Id d] e]"
  by (auto simp add: resourceAwsSubnetRead_def trace_of_def
      split: prod.splits option.splits list.splits)

lemma update_ipv6CidrBlock_new:
  "rd_IsNewResource d \<Longrightarrow> update_ipv6CidrBlock lib conn d w = (FallThrough, [], d, w)"
  by (simp add: update_ipv6CidrBlock_def)

lemma andThen_skip:
  assumes "f d w = (FallThrough, [], d, w)"
  shows "andThen f g d w = g d w"
  using assms by (simp add: andThen_def split: prod.splits)

lemma update_new_chain:
  assumes "rd_IsNewResource d"
  shows "andThen (update_tags lib)
           (andThen (update_mapPublicIpOnLaunch conn)
              (andThen (update_ipv6CidrBlock lib conn)
                 (update_assignIpv6AddressOnCreation conn))) d w =
         andThen (update_tags lib)
           (andThen (update_mapPublicIpOnLaunch conn)
              (update_assignIpv6AddressOnCreation conn)) d w"
proof -
  obtain f1 es1 d1 w1 where t: "update_tags lib d w = (f1, es1, d1, w1)"
    by (metis prod_cases4)
  have n1: "rd_IsNewResource d1"
    using update_tags_cases [OF t] assms by auto
  obtain f2 es2 d2 w2 where m: "update_mapPublicIpOnLaunch conn d1 w1 = (f2, es2, d2, w2)"
    by (metis prod_cases4)
  have n2: "rd_IsNewResource d2"
    using update_mapPublicIpOnLaunch_cases [OF m] n1 by auto
  have inner: "andThen (update_ipv6CidrBlock lib conn)
      (update_assignIpv6AddressOnCreation conn) d2 w2 =
      update_assignIpv6AddressOnCreation conn d2 w2"
    using n2 by (simp add: andThen_skip update_ipv6CidrBlock_new)
  have mid: "andThen (update_mapPublicIpOnLaunch conn)
      (andThen (update_ipv6CidrBlock lib conn) (update_assignIpv6AddressOnCreation conn)) d1 w1 =
      andThen (update_mapPublicIpOnLaunch conn) (update_assignIpv6AddressOnCreation conn) d1 w1"
    using m inner by (cases f2) (simp_all add: andThen_def)
  show ?thesis
    using t mid by (cases f1) (simp_all add: andThen_def)
qed

lemma andThen_trace:
  assumes "\<And>d w. \<forall>e\<in>set (trace_of (f d w)). P e"
    and "\<And>d w. \<forall>e\<in>set (trace_of (g d w)). P e"
  shows "\<forall>e\<in>set (trace_of (andThen f g d w)). P e"
proof -
  obtain r es d' w' where f: "f d w = (r, es, d', w')"
    by (metis prod_cases4)
  obtain r2 es2 d2 w2 where g: "g d' w' = (r2, es2, d2, w2)"
    by (metis prod_cases4)
  have "\<forall>e\<in>set es. P e" "\<forall>e\<in>set es2. P e"
    using assms(1) [of d w] assms(2) [of d' w'] f g by (simp_all add: trace_of_def)
  then show ?thesis
    using f g by (cases r) (auto simp add: andThen_def trace_of_def)
qed

lemma update_finish_trace:
  assumes "\<forall>e\<in>set (trace_of r). \<not> isCidrCall e"
  shows "\<forall>e\<in>set (trace_of (update_finish lib conn r)). \<not> isCidrCall e"
proof -
  obtain f es d w where r: "r = (f, es, d, w)"
    by (metis prod_cases4)
  obtain res es' d' w' where rd:
    "resourceAwsSubnetRead lib conn (d\<lparr>rd_partial := False\<rparr>) w = (res, es', d', w')"
    by (metis prod_cases4)
  have "\<forall>e\<in>set es'. \<not> isCidrCall e"
    using resourceAwsSubnetRead_trace [of lib conn "d\<lparr>rd_partial := False\<rparr>" w] rd
    by (auto simp add: trace_of_def)
  then show ?thesis
    using assms r rd by (cases f) (auto simp add: update_finish_def trace_of_def)
qed

lemma quiet_blocks:
  "\<forall>e\<in>set (trace_of (update_tags lib d w)). \<not> isCidrCall e"
  "\<forall>e\<in>set (trace_of (update_mapPublicIpOnLaunch conn d w)). \<not> isCidrCall e"
  "\<forall>e\<in>set (trace_of (update_assignIpv6AddressOnCreation conn d w)). \<not> isCidrCall e"
proof -
  obtain f es d' w' where t: "update_tags lib d w = (f, es, d', w')"
    by (metis prod_cases4)
  show "\<forall>e\<in>set (trace_of (update_tags lib d w)). \<not> isCidrCall e"
    using update_tags_cases [OF t] t by (auto simp add: trace_of_def)
  obtain f es d' w' where m: "update_mapPublicIpOnLaunch conn d w = (f, es, d', w')"
    by (metis prod_cases4)
  show "\<forall>e\<in>set (trace_of (update_mapPublicIpOnLaunch conn d w)). \<not> isCidrCall e"
    using update_mapPublicIpOnLaunch_cases [OF m] m by (auto simp add: trace_of_def)
  obtain f es d' w' where a: "update_assignIpv6AddressOnCreation conn d w = (f, es, d', w')"
    by (metis prod_cases4)
  show "\<forall>e\<in>set (trace_of (update_assignIpv6AddressOnCreation conn d w)). \<not> isCidrCall e"
    using update_assignIpv6AddressOnCreation_cases [OF a] a by (auto simp add: trace_of_def)
qed

lemma quiet_filter:
  "\<forall>e\<in>set es. \<not> isCidrCall e \<Longrightarrow> filter isCidrCall es = []"
  by (induction es) auto

text \<open>
  C4. On a newly created resource the update controller skips the IPv6 CIDR
  reassociation, whether or not the IPv6 block has a pending change: its trace holds no
  disassociate call, no associate call and no wait, and the controller is the sequence
  of its other blocks (tags, public IP on launch, IPv6 address on creation, then the
  read) with the reassociation block taken out, so those blocks run as they would
  without it.
\<close>

theorem update_of_new_resource_skips_reassociation:
  assumes "rd_IsNewResource d"
  shows "resourceAwsSubnetUpdate lib conn d w =
      update_finish lib conn
        (andThen (update_tags lib)
           (andThen (update_mapPublicIpOnLaunch conn)
              (update_assignIpv6AddressOnCreation conn))
           (d\<lparr>rd_partial := True\<rparr>) w)
    \<and> (\<forall>e\<in>set (trace_of (resourceAwsSubnetUpdate lib conn d w)). \<not> isCidrCall e)"
proof -
  have new: "rd_IsNewResource (d\<lparr>rd_partial := True\<rparr>)"
    using assms by simp
  have eq: "resourceAwsSubnetUpdate lib conn d w =
      update_finish lib conn
        (andThen (update_tags lib)
           (andThen (update_mapPublicIpOnLaunch conn)
              (update_assignIpv6AddressOnCreation conn))
           (d\<lparr>rd_partial := True\<rparr>) w)"
    by (simp add: resourceAwsSubnetUpdate_def update_new_chain [OF new])
  have "\<forall>e\<in>set (trace_of (andThen (update_tags lib)
           (andThen (update_mapPublicIpOnLaunch conn)
              (update_assignIpv6AddressOnCreation conn))
           (d\<lparr>rd_partial := True\<rparr>) w)). \<not> isCidrCall e"
    by (intro andThen_trace quiet_blocks)
  then show ?thesis
    using eq update_finish_trace by metis
qed

section \<open>The order of the reassociation\<close>

lemma unique_split:
  "xs @ x # ys = us @ u # vs \<Longrightarrow> P x \<Longrightarrow> \<forall>z\<in>set us. \<not> P z \<Longrightarrow> \<forall>z\<in>set vs. \<not> P z \<Longrightarrow>
   xs = us \<and> x = u \<and> ys = vs"
proof (induction xs arbitrary: us)
  case Nil
  then show ?case by (cases us) auto
next
  case (Cons a xs)
  show ?case
  proof (cases us)
    case Nil
    then have "x \<in> set vs" using Cons.prems(1) by auto
    then show ?thesis using Cons.prems(2,4) by blast
  next
    case (Cons b us')
    then show ?thesis using Cons.IH [of us'] Cons.prems by auto
  qed
qed

lemma update_ipv6CidrBlock_shapes:
  assumes "HasChange_string d ''ipv6_cidr_block''" and "\<not> rd_IsNewResource d"
    and "Get_string d ''ipv6_cidr_block_association_id'' \<noteq> ''''"
    and "update_ipv6CidrBlock lib conn d w = (f, es, d', w')"
  shows
    "(\<exists>e. es = [CallDisassociateSubnetCidrBlock
                  (Get_string d ''ipv6_cidr_block_association_id'') (Some e)] \<and>
          f = Done (Returns (Some e)))
     \<or> (\<exists>out. es = [CallDisassociateSubnetCidrBlock
                      (Get_string d ''ipv6_cidr_block_association_id'') None,
                    CallWaitForState (disassociateConf conn d) out] \<and>
          out \<noteq> Returns None \<and>
          (\<forall>e. out = Returns (Some e) \<longrightarrow> (\<exists>e'. f = Done (Returns (Some e')))))
     \<or> (\<exists>err tl.
          es = [CallDisassociateSubnetCidrBlock
                  (Get_string d ''ipv6_cidr_block_association_id'') None,
                CallWaitForState (disassociateConf conn d) (Returns None)] @
               CallAssociateSubnetCidrBlock
                  \<lparr>asi_SubnetId = Some (rd_Id d),
                   asi_Ipv6CidrBlock = Some (rd_planString d ''ipv6_cidr_block'')\<rparr> err # tl \<and>
          (tl = [] \<or> (\<exists>newId out. tl = [CallWaitForState (associateConf conn d newId) out])))"
  using assms
  by (auto simp add: update_ipv6CidrBlock_def andThen_def update_disassociate_def
      update_associate_def GetOk_string_def GetChange_string_def Let_def
      split: prod.splits option.splits go.splits if_splits flow.splits)

lemma update_cidr_view:
  assumes "resourceAwsSubnetUpdate lib conn d w = (res, tr, dF, wF)"
  shows "filter isCidrCall tr = [] \<or>
     (\<exists>d2 w2 f es d3 w3.
        rd_Id d2 = rd_Id d \<and> rd_IsNewResource d2 = rd_IsNewResource d \<and>
        rd_planString d2 = rd_planString d \<and> rd_stateString d2 = rd_stateString d \<and>
        rd_setString d2 = rd_setString d \<and>
        update_ipv6CidrBlock lib conn d2 w2 = (f, es, d3, w3) \<and>
        filter isCidrCall tr = filter isCidrCall es \<and>
        (\<forall>r. f = Done r \<longrightarrow> res = r))"
proof -
  let ?d0 = "d\<lparr>rd_partial := True\<rparr>"
  obtain f1 es1 d1 w1 where t: "update_tags lib ?d0 w = (f1, es1, d1, w1)"
    by (metis prod_cases4)
  have q1: "filter isCidrCall es1 = []"
    using quiet_blocks(1) [of lib ?d0 w] t by (simp add: trace_of_def quiet_filter)
  show ?thesis
  proof (cases f1)
    case (Done r1)
    then have "tr = es1"
      using assms t by (simp add: resourceAwsSubnetUpdate_def andThen_def update_finish_def)
    then show ?thesis using q1 by simp
  next
    case FallThrough
    obtain f2 es2 d2 w2 where m: "update_mapPublicIpOnLaunch conn d1 w1 = (f2, es2, d2, w2)"
      by (metis prod_cases4)
    have q2: "filter isCidrCall es2 = []"
      using quiet_blocks(2) [of conn d1 w1] m by (simp add: trace_of_def quiet_filter)
    have same: "rd_Id d2 = rd_Id d \<and> rd_IsNewResource d2 = rd_IsNewResource d \<and>
        rd_planString d2 = rd_planString d \<and> rd_stateString d2 = rd_stateString d \<and>
        rd_setString d2 = rd_setString d"
      using update_tags_cases [OF t] update_mapPublicIpOnLaunch_cases [OF m] by auto
    show ?thesis
    proof (cases f2)
      case (Done r2)
      then have "tr = es1 @ es2"
        using assms t m FallThrough
        by (simp add: resourceAwsSubnetUpdate_def andThen_def update_finish_def)
      then show ?thesis using q1 q2 by simp
    next
      case ft2: FallThrough
      obtain f3 es3 d3 w3 where i: "update_ipv6CidrBlock lib conn d2 w2 = (f3, es3, d3, w3)"
        by (metis prod_cases4)
      obtain f4 es4 d4 w4 where
        a: "update_assignIpv6AddressOnCreation conn d3 w3 = (f4, es4, d4, w4)"
        by (metis prod_cases4)
      have q4: "filter isCidrCall es4 = []"
        using quiet_blocks(3) [of conn d3 w3] a by (simp add: trace_of_def quiet_filter)
      obtain r5 es5 d5 w5 where
        rd: "resourceAwsSubnetRead lib conn (d4\<lparr>rd_partial := False\<rparr>) w4 = (r5, es5, d5, w5)"
        by (metis prod_cases4)
      have q5: "filter isCidrCall es5 = []"
        using resourceAwsSubnetRead_trace [of lib conn "d4\<lparr>rd_partial := False\<rparr>" w4] rd
        by (auto simp add: trace_of_def)
      have "filter isCidrCall tr = filter isCidrCall es3 \<and> (\<forall>r. f3 = Done r \<longrightarrow> res = r)"
      proof (cases f3)
        case (Done r3)
        then show ?thesis
          using assms t m i FallThrough ft2 q1 q2
          by (auto simp add: resourceAwsSubnetUpdate_def andThen_def update_finish_def)
      next
        case ft3: FallThrough
        show ?thesis
          using assms t m i a rd FallThrough ft2 ft3 q1 q2 q4 q5
          by (cases f4) (auto simp add: resourceAwsSubnetUpdate_def andThen_def update_finish_def)
      qed
      then show ?thesis
        using same i by blast
    qed
  qed
qed

lemma confs_differ [simp]:
  "disassociateConf conn d \<noteq> associateConf conn d' newId"
  by (simp add: disassociateConf_def associateConf_def)

end
